theory Spec2Isabelle
  imports Main "HOL-Library.Word" "HOL-Library.Sublist"
begin

unbundle bit_operations_syntax

section \<open>Values of the Python program\<close>

text \<open>
  The handler receives an event that was deserialised from JSON, so every value it
  touches is a JSON value: \<open>None\<close>, a \<open>bool\<close>, an \<open>int\<close>, a \<open>float\<close> (kept as the 64 bits of
  its IEEE-754 double), a \<open>str\<close>, a \<open>list\<close> or a \<open>dict\<close> with string keys. A \<open>str\<close> is
  modelled by the bytes of its UTF-8 encoding; a \<open>dict\<close> is an association list read
  with \<open>map_of\<close>.
\<close>

datatype pyval =
    PNone
  | PBool bool
  | PInt int
  | PFloat "64 word"
  | PStr string
  | PList "pyval list"
  | PDict "(string \<times> pyval) list"

text \<open>
  The exceptions the program can meet. Each carries its message, \<open>str(e)\<close>; the
  wording of the messages built here is the one of CPython 3.12 and 3.13.
\<close>

datatype exn =
    AttributeError string
  | TypeError string
  | KeyError string
  | IndexError string
  | ValueError string
  | OSError string

fun exn_message :: "exn \<Rightarrow> string" where
  "exn_message (AttributeError m) = m"
| "exn_message (TypeError m) = m"
| "exn_message (KeyError m) = m"
| "exn_message (IndexError m) = m"
| "exn_message (ValueError m) = m"
| "exn_message (OSError m) = m"

text \<open>\<open>type(v).__name__\<close>\<close>

fun type_name :: "pyval \<Rightarrow> string" where
  "type_name PNone = ''NoneType''"
| "type_name (PBool b) = ''bool''"
| "type_name (PInt i) = ''int''"
| "type_name (PFloat f) = ''float''"
| "type_name (PStr s) = ''str''"
| "type_name (PList xs) = ''list''"
| "type_name (PDict d) = ''dict''"

text \<open>Truthiness, as \<open>if v:\<close>, \<open>a or b\<close> and \<open>a and b\<close> test it.\<close>

fun truthy :: "pyval \<Rightarrow> bool" where
  "truthy PNone = False"
| "truthy (PBool b) = b"
| "truthy (PInt i) = (i \<noteq> 0)"
| "truthy (PFloat f) = (f AND 0x7FFFFFFFFFFFFFFF \<noteq> 0)"
| "truthy (PStr s) = (s \<noteq> [])"
| "truthy (PList xs) = (xs \<noteq> [])"
| "truthy (PDict d) = (d \<noteq> [])"

text \<open>Sequencing of steps that may raise: the first exception ends the computation.\<close>

definition and_then :: "exn + 'a \<Rightarrow> ('a \<Rightarrow> exn + 'b) \<Rightarrow> exn + 'b" where
  "and_then m f = (case m of Inl e \<Rightarrow> Inl e | Inr x \<Rightarrow> f x)"

definition no_attribute :: "pyval \<Rightarrow> string \<Rightarrow> exn" where
  "no_attribute v a =
     AttributeError ([CHR 0x27] @ type_name v @ [CHR 0x27] @ '' object has no attribute ''
                     @ [CHR 0x27] @ a @ [CHR 0x27])"

text \<open>\<open>obj.get(key, default)\<close>: only a \<open>dict\<close> has the method.\<close>

fun py_get :: "pyval \<Rightarrow> string \<Rightarrow> pyval \<Rightarrow> exn + pyval" where
  "py_get (PDict d) k dflt = Inr (case map_of d k of None \<Rightarrow> dflt | Some v \<Rightarrow> v)"
| "py_get v k dflt = Inl (no_attribute v ''get'')"

text \<open>
  \<open>obj[0]\<close>: the first element of a list; the first character of a string, which in
  UTF-8 is a leading byte and the continuation bytes after it; a dict is looked up at
  the key \<open>0\<close>, which a dict with string keys does not have; the other values are not
  subscriptable.
\<close>

definition utf8_continuation :: "char \<Rightarrow> bool" where
  "utf8_continuation c = (128 \<le> (of_char c :: nat) \<and> (of_char c :: nat) < 192)"

fun py_item0 :: "pyval \<Rightarrow> exn + pyval" where
  "py_item0 (PList (x # xs)) = Inr x"
| "py_item0 (PList []) = Inl (IndexError ''list index out of range'')"
| "py_item0 (PStr (c # cs)) = Inr (PStr (c # takeWhile utf8_continuation cs))"
| "py_item0 (PStr []) = Inl (IndexError ''string index out of range'')"
| "py_item0 (PDict d) = Inl (KeyError ''0'')"
| "py_item0 v = Inl (TypeError ([CHR 0x27] @ type_name v @ [CHR 0x27] @ '' object is not subscriptable''))"

section \<open>The resource extractor\<close>

text \<open>
  \<open>extract_resource_details(detail, event_name)\<close>, branch by branch in the order of the
  source. \<open>resourceKey\<close> is always one of the literals of the source, so it is a
  string; \<open>resourceValue\<close> is whatever value the event holds at the field. The pair
  starts as \<open>("", "")\<close> and a branch that assigns neither variable returns it.
\<close>

definition extract_resource_details :: "pyval \<Rightarrow> pyval \<Rightarrow> exn + (string \<times> pyval)" where
  "extract_resource_details detail event_name =
     and_then (py_get detail ''responseElements'' (PDict [])) (\<lambda>response_elements.
     and_then (py_get detail ''requestParameters'' (PDict [])) (\<lambda>request_parameters.
     if event_name \<in> set [PStr ''TerminateInstances'', PStr ''RunInstances''] then
       and_then (py_get response_elements ''instancesSet'' (PDict [])) (\<lambda>instances_set.
       and_then (py_get instances_set ''items'' (PList [])) (\<lambda>items.
       if truthy items then
         and_then (py_item0 items) (\<lambda>item0.
         and_then (py_get item0 ''instanceId'' (PStr [])) (\<lambda>resourceValue.
         Inr (''Instance_ID'', resourceValue)))
       else Inr ([], PStr [])))
     else if event_name \<in> set [PStr ''CreateDBInstance'', PStr ''DeleteDBInstance''] then
       and_then (py_get response_elements ''dBInstanceIdentifier'' (PStr [])) (\<lambda>resourceValue.
       Inr (''DB_Instance_ID'', resourceValue))
     else if event_name \<in> set [PStr ''CreateLoadBalancer'', PStr ''DeleteLoadBalancer''] then
       and_then (py_get response_elements ''loadBalancers'' (PList [])) (\<lambda>load_balancers.
       if truthy load_balancers then
         and_then (py_item0 load_balancers) (\<lambda>item0.
         and_then (py_get item0 ''loadBalancerName'' (PStr [])) (\<lambda>resourceValue.
         Inr (''LoadBalancer_ID'', resourceValue)))
       else Inr ([], PStr []))
     else if event_name \<in> set [PStr ''CreateUser'', PStr ''DeleteUser''] then
       and_then (py_get response_elements ''user'' (PDict [])) (\<lambda>user_info.
       and_then (py_get user_info ''userName'' (PStr [])) (\<lambda>resourceValue.
       Inr (''User_ID'', resourceValue)))
     else if event_name \<in> set [PStr ''CreateGroup'', PStr ''DeleteGroup''] then
       and_then (py_get response_elements ''group'' (PDict [])) (\<lambda>group_info.
       and_then (py_get group_info ''groupName'' (PStr [])) (\<lambda>resourceValue.
       Inr (''Group'', resourceValue)))
     else if event_name \<in> set [PStr ''CreateRole'', PStr ''DeleteRole''] then
       and_then (py_get response_elements ''role'' (PDict [])) (\<lambda>role_info.
       and_then (py_get role_info ''roleName'' (PStr [])) (\<lambda>resourceValue.
       Inr (''Role'', resourceValue)))
     else if event_name \<in> set [PStr ''CreatePolicy'', PStr ''DeletePolicy''] then
       and_then (py_get response_elements ''policy'' (PDict [])) (\<lambda>policy_info.
       and_then (py_get policy_info ''policyName'' (PStr [])) (\<lambda>resourceValue.
       Inr (''Policy'', resourceValue)))
     else if event_name \<in> set [PStr ''CreateCluster'', PStr ''DeleteCluster''] then
       and_then (py_get response_elements ''cluster'' (PDict [])) (\<lambda>cluster_info.
       and_then (py_get cluster_info ''clusterName'' (PStr [])) (\<lambda>resourceValue.
       Inr (''Cluster'', resourceValue)))
     else if event_name \<in> set [PStr ''CreateRestApi'', PStr ''DeleteRestApi''] then
       and_then (py_get response_elements ''id'' (PStr [])) (\<lambda>resourceValue.
       Inr (''RestApi'', resourceValue))
     else if event_name \<in> set [PStr ''CreatePipeline'', PStr ''DeletePipeline''] then
       and_then (py_get response_elements ''pipeline'' (PDict [])) (\<lambda>pipeline_info.
       and_then (py_get pipeline_info ''pipelineName'' (PStr [])) (\<lambda>resourceValue.
       Inr (''Pipeline'', resourceValue)))
     else if event_name \<in> set [PStr ''CreateProject'', PStr ''DeleteProject'', PStr ''UpdateProject''] then
       and_then (py_get response_elements ''project'' (PDict [])) (\<lambda>project_info.
       and_then (py_get project_info ''projectName'' (PStr [])) (\<lambda>resourceValue.
       Inr (''Project'', resourceValue)))
     else if event_name \<in> set [PStr ''CreateApplication'', PStr ''DeleteApplication''] then
       and_then (py_get response_elements ''application'' (PDict [])) (\<lambda>application_info.
       and_then (py_get application_info ''applicationName'' (PStr [])) (\<lambda>resourceValue.
       Inr (''Application'', resourceValue)))
     else if event_name \<in> set [PStr ''CreateHostedZone'', PStr ''DeleteHostedZone''] then
       and_then (py_get response_elements ''hostedZone'' (PDict [])) (\<lambda>hosted_zone_info.
       and_then (py_get hosted_zone_info ''id'' (PStr [])) (\<lambda>resourceValue.
       Inr (''HostedZone'', resourceValue)))
     else if event_name = PStr ''CreateSecret'' then
       and_then (py_get request_parameters ''name'' (PStr [])) (\<lambda>resourceValue.
       Inr (''Secret_ID'', resourceValue))
     else if event_name = PStr ''DeleteSecret'' then
       and_then (py_get response_elements ''name'' (PStr [])) (\<lambda>resourceValue.
       Inr (''Secret_ID'', resourceValue))
     else if event_name \<in> set [PStr ''CreateRepository'', PStr ''DeleteRepository''] then
       and_then (py_get response_elements ''repository'' (PDict [])) (\<lambda>repository_info.
       and_then (py_get repository_info ''repositoryName'' (PStr [])) (\<lambda>resourceValue.
       Inr (''Repository Name'', resourceValue)))
     else if event_name \<in> set [PStr ''CreateAutoScalingGroup'', PStr ''DeleteAutoScalingGroup''] then
       and_then (py_get response_elements ''autoScalingGroupName'' (PStr [])) (\<lambda>resourceValue.
       Inr (''AutoScalingGroup'', resourceValue))
     else Inr ([], PStr [])))"

text \<open>The event names that have a branch in \<open>extract_resource_details\<close>, in source order.\<close>

definition registered_event_names :: "string list" where
  "registered_event_names =
     [''TerminateInstances'', ''RunInstances'', ''CreateDBInstance'', ''DeleteDBInstance'',
      ''CreateLoadBalancer'', ''DeleteLoadBalancer'', ''CreateUser'', ''DeleteUser'',
      ''CreateGroup'', ''DeleteGroup'', ''CreateRole'', ''DeleteRole'', ''CreatePolicy'',
      ''DeletePolicy'', ''CreateCluster'', ''DeleteCluster'', ''CreateRestApi'',
      ''DeleteRestApi'', ''CreatePipeline'', ''DeletePipeline'', ''CreateProject'',
      ''DeleteProject'', ''UpdateProject'', ''CreateApplication'', ''DeleteApplication'',
      ''CreateHostedZone'', ''DeleteHostedZone'', ''CreateSecret'', ''DeleteSecret'',
      ''CreateRepository'', ''DeleteRepository'', ''CreateAutoScalingGroup'',
      ''DeleteAutoScalingGroup'']"

section \<open>The notifier\<close>

subsection \<open>String operations of the handler\<close>

text \<open>\<open>sub in s\<close> on two strings: \<open>sub\<close> occurs in \<open>s\<close> as a contiguous run.\<close>

fun str_contains :: "string \<Rightarrow> string \<Rightarrow> bool" where
  "str_contains sub [] = (sub = [])"
| "str_contains sub (c # cs) = (prefix sub (c # cs) \<or> str_contains sub cs)"

text \<open>
  \<open>needle in v\<close> for a string \<open>needle\<close>: a substring test on a \<open>str\<close>, membership in a
  \<open>list\<close>, key membership in a \<open>dict\<close>, and a \<open>TypeError\<close> on every other value.
\<close>

fun py_in :: "string \<Rightarrow> pyval \<Rightarrow> exn + bool" where
  "py_in needle (PStr s) = Inr (str_contains needle s)"
| "py_in needle (PList xs) = Inr (PStr needle \<in> set xs)"
| "py_in needle (PDict d) = Inr (map_of d needle \<noteq> None)"
| "py_in needle v =
     Inl (TypeError (''argument of type '' @ [CHR 0x27] @ type_name v @ [CHR 0x27] @ '' is not iterable''))"

text \<open>\<open>s.split(sep)\<close> for a separator of one character.\<close>

fun split_on :: "char \<Rightarrow> string \<Rightarrow> string list" where
  "split_on sep [] = [[]]"
| "split_on sep (c # cs) =
     (if c = sep then [] # split_on sep cs
      else (case split_on sep cs of [] \<Rightarrow> [[c]] | w # ws \<Rightarrow> (c # w) # ws))"

text \<open>\<open>v.split(":")[-1]\<close>: only a \<open>str\<close> has the method.\<close>

fun py_split_last :: "pyval \<Rightarrow> exn + pyval" where
  "py_split_last (PStr s) =
     (case rev (split_on CHR '':'' s) of
        [] \<Rightarrow> Inl (IndexError ''list index out of range'')
      | w # ws \<Rightarrow> Inr (PStr w))"
| "py_split_last v = Inl (no_attribute v ''split'')"

subsection \<open>The surroundings of the handler\<close>

text \<open>
  What the module takes from outside the repository: the environment variable read at
  import, \<open>json.dumps\<close>, \<open>str()\<close> of a value that is not a string (what an f-string and
  \<open>%s\<close> print), the constructor \<open>urllib.request.Request\<close>, which raises \<open>ValueError\<close> on
  a URL it cannot parse, and \<open>urllib.request.urlopen\<close>, which returns the status of the
  response or raises.
\<close>

record runtime =
  SLACK_WEBHOOK_URL :: string
  json_dumps :: "pyval \<Rightarrow> string"
  str_of :: "pyval \<Rightarrow> string"
  Request :: "string \<Rightarrow> string \<Rightarrow> exn + unit"
  urlopen :: "string \<Rightarrow> string \<Rightarrow> exn + int"

text \<open>\<open>f"{v}"\<close> and \<open>"%s" % v\<close>: a string prints as itself.\<close>

definition py_format :: "runtime \<Rightarrow> pyval \<Rightarrow> string" where
  "py_format rt v = (case v of PStr s \<Rightarrow> s | _ \<Rightarrow> str_of rt v)"

text \<open>
  What a run leaves behind: the log records, the calls of the two functions of the
  module with their arguments, and the HTTP request sent by \<open>urlopen\<close>.
\<close>

datatype level = INFO | ERROR

datatype effect =
    Log level string
  | Call string "pyval list"
  | HttpPost string string

type_synonym 'a run = "(exn + 'a) \<times> effect list"

definition finish :: "'a \<Rightarrow> 'a run" where
  "finish x = (Inr x, [])"

definition emit :: "effect \<Rightarrow> unit run" where
  "emit ef = (Inr (), [ef])"

definition pure :: "exn + 'a \<Rightarrow> 'a run" where
  "pure m = (m, [])"

definition next_step :: "'a run \<Rightarrow> ('a \<Rightarrow> 'b run) \<Rightarrow> 'b run" where
  "next_step m f =
     (case m of
        (Inl e, tr) \<Rightarrow> (Inl e, tr)
      | (Inr x, tr) \<Rightarrow> (case f x of (r, tr') \<Rightarrow> (r, tr @ tr')))"

text \<open>\<open>try: m except Exception as e: h(e)\<close>; every exception of the model is an \<open>Exception\<close>.\<close>

definition try_except :: "'a run \<Rightarrow> (exn \<Rightarrow> 'a run) \<Rightarrow> 'a run" where
  "try_except m h =
     (case m of
        (Inl e, tr) \<Rightarrow> (case h e of (r, tr') \<Rightarrow> (r, tr @ tr'))
      | (Inr x, tr) \<Rightarrow> (Inr x, tr))"

subsection \<open>Delivery\<close>

definition send_slack_notification :: "runtime \<Rightarrow> pyval \<Rightarrow> unit run" where
  "send_slack_notification rt message =
     (if SLACK_WEBHOOK_URL rt = [] then
        next_step (emit (Log ERROR ''SLACK_WEBHOOK_URL not set in environment variables.'')) (\<lambda>_.
        finish ())
      else
        next_step (pure (Request rt (SLACK_WEBHOOK_URL rt) (json_dumps rt message))) (\<lambda>req.
        try_except
          (next_step (emit (HttpPost (SLACK_WEBHOOK_URL rt) (json_dumps rt message))) (\<lambda>_.
           next_step (pure (urlopen rt (SLACK_WEBHOOK_URL rt) (json_dumps rt message))) (\<lambda>status.
           emit (Log INFO (''Slack Notification Sent! Response Code: '' @ str_of rt (PInt status))))))
          (\<lambda>e. emit (Log ERROR (''Error sending Slack notification: '' @ exn_message e)))))"

subsection \<open>The handler\<close>

text \<open>Lines 100 to 105: the fields of the envelope, with their defaults.\<close>

record envelope =
  ev_detail :: pyval
  ev_event_name :: pyval
  ev_user_identity :: pyval
  ev_aws_region :: pyval
  ev_event_time :: pyval
  ev_event_source :: pyval

definition parse_envelope :: "pyval \<Rightarrow> exn + envelope" where
  "parse_envelope event =
     and_then (py_get event ''detail'' (PDict [])) (\<lambda>detail.
     and_then (py_get detail ''eventName'' (PStr ''UnknownEvent'')) (\<lambda>event_name.
     and_then (py_get detail ''userIdentity'' (PDict [])) (\<lambda>user_identity.
     and_then (py_get detail ''awsRegion'' (PStr ''Unknown'')) (\<lambda>aws_region.
     and_then (py_get detail ''eventTime'' (PStr ''Unknown'')) (\<lambda>event_time.
     and_then (py_get detail ''eventSource'' (PStr ''Unknown'')) (\<lambda>event_source.
     Inr \<lparr>ev_detail = detail, ev_event_name = event_name, ev_user_identity = user_identity,
          ev_aws_region = aws_region, ev_event_time = event_time,
          ev_event_source = event_source\<rparr>))))))"

text \<open>
  Lines 108 to 110: \<open>a or b\<close> is \<open>a\<close> when \<open>a\<close> is truthy and \<open>b\<close> otherwise, and \<open>b\<close> is
  evaluated only then.
\<close>

definition resolve_user_name :: "pyval \<Rightarrow> exn + pyval" where
  "resolve_user_name user_identity =
     and_then (py_get user_identity ''userName'' PNone) (\<lambda>direct.
     and_then (if truthy direct then Inr direct
               else py_get user_identity ''principalId'' (PStr ''UnknownUser'')) (\<lambda>user_name.
     and_then (py_in '':'' user_name) (\<lambda>has_colon.
     if has_colon then py_split_last user_name else Inr user_name)))"

text \<open>Lines 122 to 130: the text of the message. The pictographs are their UTF-8 bytes.\<close>

definition slack_text ::
  "runtime \<Rightarrow> pyval \<Rightarrow> pyval \<Rightarrow> pyval \<Rightarrow> string \<Rightarrow> pyval \<Rightarrow> pyval \<Rightarrow> pyval \<Rightarrow> string" where
  "slack_text rt user_name event_source event_name resourceKey resourceValue aws_region event_time =
     ''*AWS Infrastructure Change Detected! '' @ [CHR 0xF0, CHR 0x9F, CHR 0x9A, CHR 0xA8] @ ''*'' @ [CHR 0x0A]
     @ [CHR 0xF0, CHR 0x9F, CHR 0x91, CHR 0xA4] @ '' User: `'' @ py_format rt user_name @ ''`'' @ [CHR 0x0A]
     @ [CHR 0xF0, CHR 0x9F, CHR 0x9B, CHR 0xA0] @ '' Event Source: `'' @ py_format rt event_source @ ''`'' @ [CHR 0x0A]
     @ [CHR 0xF0, CHR 0x9F, CHR 0x9B, CHR 0xA0] @ '' Event: `'' @ py_format rt event_name @ ''`'' @ [CHR 0x0A]
     @ (if resourceKey \<noteq> [] \<and> truthy resourceValue
        then [CHR 0xF0, CHR 0x9F, CHR 0x9B, CHR 0xA0] @ '' '' @ resourceKey @ '': `''
             @ py_format rt resourceValue @ ''`'' @ [CHR 0x0A]
        else [])
     @ [CHR 0xF0, CHR 0x9F, CHR 0x8C, CHR 0x8D] @ '' Region: `'' @ py_format rt aws_region @ ''`'' @ [CHR 0x0A]
     @ [CHR 0xF0, CHR 0x9F, CHR 0x95, CHR 0x92] @ '' Time: `'' @ py_format rt event_time @ ''`'' @ [CHR 0x0A]"

record response =
  statusCode :: int
  body :: string

text \<open>Lines 100 to 143: the body of the \<open>try\<close> statement.\<close>

definition try_block :: "runtime \<Rightarrow> pyval \<Rightarrow> response run" where
  "try_block rt event =
     next_step (pure (parse_envelope event)) (\<lambda>env.
     next_step (pure (resolve_user_name (ev_user_identity env))) (\<lambda>user_name.
     next_step (pure (py_in ''@xyz.com'' user_name)) (\<lambda>listed.
     if \<not> listed then
       next_step (emit (Log INFO (''User '' @ py_format rt user_name
                                  @ '' does not match notification criteria. Skipping.''))) (\<lambda>_.
       finish \<lparr>statusCode = 200, body = ''User not in notify list.''\<rparr>)
     else
       next_step (emit (Call ''extract_resource_details'' [ev_detail env, ev_event_name env])) (\<lambda>_.
       next_step (pure (extract_resource_details (ev_detail env) (ev_event_name env))) (\<lambda>resource.
       let slack_message =
             PDict [(''text'', PStr (slack_text rt user_name (ev_event_source env) (ev_event_name env)
                                       (fst resource) (snd resource)
                                       (ev_aws_region env) (ev_event_time env)))] in
       next_step (emit (Log INFO (''Sending Slack alert: '' @ str_of rt slack_message))) (\<lambda>_.
       next_step (emit (Call ''send_slack_notification'' [slack_message])) (\<lambda>_.
       next_step (send_slack_notification rt slack_message) (\<lambda>_.
       finish \<lparr>statusCode = 200,
               body = json_dumps rt (PDict [(''message'', PStr ''Notification sent''),
                                            (''slack_message'', slack_message)])\<rparr>))))))))"

text \<open>Lines 97 to 146: the log of the event, the \<open>try\<close> statement and its \<open>except\<close> clause.\<close>

definition lambda_handler :: "runtime \<Rightarrow> pyval \<Rightarrow> response run" where
  "lambda_handler rt event =
     next_step (emit (Log INFO (''Received event: '' @ json_dumps rt event))) (\<lambda>_.
     try_except (try_block rt event)
       (\<lambda>e. next_step (emit (Log ERROR (''Error processing event: '' @ exn_message e))) (\<lambda>_.
            finish \<lparr>statusCode = 500, body = ''Error processing event: '' @ exn_message e\<rparr>)))"

section \<open>Notions used in the statements\<close>

text \<open>The part of a string after its last colon; the whole string when it has none.\<close>

definition after_last_colon :: "string \<Rightarrow> string" where
  "after_last_colon s = rev (takeWhile (\<lambda>c. c \<noteq> CHR '':'') (rev s))"

text \<open>
  \<open>path_field [k1, ..., kn] v\<close> is the value stored at \<open>v.k1. ... .kn\<close>, when every key is
  there and every value on the way is a mapping. \<open>dicts_along [k1, ..., kn] v\<close> says that
  the values on the way, as far as the keys are there, are mappings: a key may be
  missing, but no value of another type stands where a mapping is expected.
\<close>

fun path_field :: "string list \<Rightarrow> pyval \<Rightarrow> pyval option" where
  "path_field [] v = Some v"
| "path_field (k # ks) (PDict d) = (case map_of d k of None \<Rightarrow> None | Some v \<Rightarrow> path_field ks v)"
| "path_field (k # ks) v = None"

fun dicts_along :: "string list \<Rightarrow> pyval \<Rightarrow> bool" where
  "dicts_along [] v = True"
| "dicts_along (k # ks) (PDict d) = (case map_of d k of None \<Rightarrow> True | Some v \<Rightarrow> dicts_along ks v)"
| "dicts_along (k # ks) v = False"

text \<open>
  The extraction rules as a table: the event names of a group, its label, and the path
  to its value from the detail. A step of a path looks a key up in a mapping or takes
  the first element of a list.
\<close>

datatype step = Key string | First

definition extraction_table :: "(string list \<times> string \<times> step list) list" where
  "extraction_table =
     [([''TerminateInstances'', ''RunInstances''], ''Instance_ID'',
         [Key ''responseElements'', Key ''instancesSet'', Key ''items'', First, Key ''instanceId'']),
      ([''CreateDBInstance'', ''DeleteDBInstance''], ''DB_Instance_ID'',
         [Key ''responseElements'', Key ''dBInstanceIdentifier'']),
      ([''CreateLoadBalancer'', ''DeleteLoadBalancer''], ''LoadBalancer_ID'',
         [Key ''responseElements'', Key ''loadBalancers'', First, Key ''loadBalancerName'']),
      ([''CreateUser'', ''DeleteUser''], ''User_ID'',
         [Key ''responseElements'', Key ''user'', Key ''userName'']),
      ([''CreateGroup'', ''DeleteGroup''], ''Group'',
         [Key ''responseElements'', Key ''group'', Key ''groupName'']),
      ([''CreateRole'', ''DeleteRole''], ''Role'',
         [Key ''responseElements'', Key ''role'', Key ''roleName'']),
      ([''CreatePolicy'', ''DeletePolicy''], ''Policy'',
         [Key ''responseElements'', Key ''policy'', Key ''policyName'']),
      ([''CreateCluster'', ''DeleteCluster''], ''Cluster'',
         [Key ''responseElements'', Key ''cluster'', Key ''clusterName'']),
      ([''CreateRestApi'', ''DeleteRestApi''], ''RestApi'',
         [Key ''responseElements'', Key ''id'']),
      ([''CreatePipeline'', ''DeletePipeline''], ''Pipeline'',
         [Key ''responseElements'', Key ''pipeline'', Key ''pipelineName'']),
      ([''CreateProject'', ''DeleteProject'', ''UpdateProject''], ''Project'',
         [Key ''responseElements'', Key ''project'', Key ''projectName'']),
      ([''CreateApplication'', ''DeleteApplication''], ''Application'',
         [Key ''responseElements'', Key ''application'', Key ''applicationName'']),
      ([''CreateHostedZone'', ''DeleteHostedZone''], ''HostedZone'',
         [Key ''responseElements'', Key ''hostedZone'', Key ''id'']),
      ([''CreateSecret''], ''Secret_ID'',
         [Key ''requestParameters'', Key ''name'']),
      ([''DeleteSecret''], ''Secret_ID'',
         [Key ''responseElements'', Key ''name'']),
      ([''CreateRepository'', ''DeleteRepository''], ''Repository Name'',
         [Key ''responseElements'', Key ''repository'', Key ''repositoryName'']),
      ([''CreateAutoScalingGroup'', ''DeleteAutoScalingGroup''], ''AutoScalingGroup'',
         [Key ''responseElements'', Key ''autoScalingGroupName''])]"

text \<open>The rule of an event name: the first group of the table that lists it.\<close>

definition rule_for :: "string \<Rightarrow> (string \<times> step list) option" where
  "rule_for n = map_option snd (find (\<lambda>entry. n \<in> set (fst entry)) extraction_table)"

text \<open>
  \<open>follow steps v\<close> is the value the path reaches in \<open>v\<close>: none when a key is missing, or
  when there is no first element to take.
\<close>

fun follow :: "step list \<Rightarrow> pyval \<Rightarrow> pyval option" where
  "follow [] v = Some v"
| "follow (Key k # rest) (PDict d) = (case map_of d k of None \<Rightarrow> None | Some x \<Rightarrow> follow rest x)"
| "follow (Key k # rest) v = None"
| "follow (First # rest) (PList (x # xs)) = follow rest x"
| "follow (First # rest) v = None"

text \<open>
  \<open>passable steps v\<close>: every value the path meets in \<open>v\<close> can be read the way the step
  reads it. A key is looked up in a mapping only, and may be missing. The first element
  is taken of a non-empty list; a falsy value in the place of the list is passed over.
\<close>

fun passable :: "step list \<Rightarrow> pyval \<Rightarrow> bool" where
  "passable [] v = True"
| "passable (Key k # rest) (PDict d) = (case map_of d k of None \<Rightarrow> True | Some x \<Rightarrow> passable rest x)"
| "passable (Key k # rest) v = False"
| "passable (First # rest) (PList (x # xs)) = passable rest x"
| "passable (First # rest) v = (if truthy v then False else True)"

text \<open>
  What a rule with this label and path makes of a detail: where the path is passable,
  the value it reaches, or the empty string when it reaches none, under the label of
  the rule (under the empty label when there was no first element to take); where it
  is not, an exception.
\<close>

definition rule_outcome :: "string \<Rightarrow> step list \<Rightarrow> pyval \<Rightarrow> exn + (string \<times> pyval) \<Rightarrow> bool" where
  "rule_outcome label steps detail res =
     (if passable steps detail
      then \<exists>k. res = Inr (k, case follow steps detail of None \<Rightarrow> PStr [] | Some v \<Rightarrow> v)
               \<and> (k = label \<or> k = [] \<and> First \<in> set steps \<and> follow steps detail = None)
      else \<exists>e. res = Inl e)"

text \<open>
  A line of the message as it is laid out: a pictograph, a label, and the value between
  backquotes; and the header line.
\<close>

definition message_line :: "string \<Rightarrow> string \<Rightarrow> string \<Rightarrow> string" where
  "message_line pictograph label shown =
     pictograph @ '' '' @ label @ '': `'' @ shown @ ''`'' @ [CHR 0x0A]"

definition header_line :: string where
  "header_line =
     ''*AWS Infrastructure Change Detected! '' @ [CHR 0xF0, CHR 0x9F, CHR 0x9A, CHR 0xA8] @ ''*''
     @ [CHR 0x0A]"

definition bust :: string where
  "bust = [CHR 0xF0, CHR 0x9F, CHR 0x91, CHR 0xA4]"

definition tools :: string where
  "tools = [CHR 0xF0, CHR 0x9F, CHR 0x9B, CHR 0xA0]"

definition globe :: string where
  "globe = [CHR 0xF0, CHR 0x9F, CHR 0x8C, CHR 0x8D]"

definition clock :: string where
  "clock = [CHR 0xF0, CHR 0x9F, CHR 0x95, CHR 0x92]"

subsection \<open>Concrete surroundings and events\<close>

text \<open>
  A configured endpoint that answers 200; fixed strings stand for what \<open>json.dumps\<close> and
  \<open>str\<close> print. The events are those of the end-to-end scenarios: a launch by a listed
  user, the same by a user of another domain, and an event name without a rule.
\<close>

definition example_runtime :: runtime where
  "example_runtime =
     \<lparr>SLACK_WEBHOOK_URL = ''https://hooks.slack.example/services/T000'',
      json_dumps = (\<lambda>v. ''<json>''),
      str_of = (\<lambda>v. ''<str>''),
      Request = (\<lambda>url data. Inr ()),
      urlopen = (\<lambda>url data. Inr 200)\<rparr>"

text \<open>The same with no endpoint configured, and with an endpoint that cannot be reached.\<close>

definition unconfigured_runtime :: runtime where
  "unconfigured_runtime = example_runtime\<lparr>SLACK_WEBHOOK_URL := []\<rparr>"

definition unreachable_runtime :: runtime where
  "unreachable_runtime = example_runtime\<lparr>urlopen := (\<lambda>url data. Inl (OSError ''timed out''))\<rparr>"

text \<open>
  An endpoint written without its scheme: \<open>urllib.request.Request\<close> refuses it with a
  \<open>ValueError\<close>.
\<close>

definition schemeless_runtime :: runtime where
  "schemeless_runtime =
     example_runtime\<lparr>SLACK_WEBHOOK_URL := ''hooks.slack.example/services/T000'',
                      Request := (\<lambda>url data. Inl (ValueError (''unknown url type: ''
                                    @ [CHR 0x27] @ url @ [CHR 0x27])))\<rparr>"

definition launch_detail :: "string \<Rightarrow> pyval" where
  "launch_detail who =
     PDict [(''eventName'', PStr ''RunInstances''),
            (''userIdentity'', PDict [(''userName'', PStr who)]),
            (''awsRegion'', PStr ''eu-west-1''),
            (''eventTime'', PStr ''2024-01-01T00:00:00Z''),
            (''eventSource'', PStr ''ec2.amazonaws.com''),
            (''responseElements'',
               PDict [(''instancesSet'',
                  PDict [(''items'', PList [PDict [(''instanceId'', PStr ''i-0abc'')]])])])]"

definition scenario_A :: pyval where
  "scenario_A = PDict [(''detail'', launch_detail ''alice@xyz.com'')]"

definition scenario_B :: pyval where
  "scenario_B = PDict [(''detail'', launch_detail ''bob@other.com'')]"

definition scenario_C :: pyval where
  "scenario_C =
     PDict [(''detail'',
        PDict [(''eventName'', PStr ''UnknownThing''),
               (''userIdentity'', PDict [(''userName'', PStr ''alice@xyz.com'')])])]"

text \<open>
  Two more events of a listed user: a REST API whose \<open>id\<close> is a number, not a string,
  and a database instance whose response lacks the identifier.
\<close>

definition numeric_id_event :: pyval where
  "numeric_id_event =
     PDict [(''detail'',
        PDict [(''eventName'', PStr ''CreateRestApi''),
               (''userIdentity'', PDict [(''userName'', PStr ''alice@xyz.com'')]),
               (''responseElements'', PDict [(''id'', PInt 5)])])]"

definition bare_label_event :: pyval where
  "bare_label_event =
     PDict [(''detail'',
        PDict [(''eventName'', PStr ''CreateDBInstance''),
               (''userIdentity'', PDict [(''userName'', PStr ''alice@xyz.com'')]),
               (''responseElements'', PDict [])])]"


section \<open>Basic facts\<close>

lemma and_then_Inr [simp]: "and_then (Inr x) f = f x" by (simp add: and_then_def)
lemma and_then_Inl [simp]: "and_then (Inl e) f = Inl e" by (simp add: and_then_def)

lemma next_step_Inr [simp]: "next_step (Inr x, tr) f = (fst (f x), tr @ snd (f x))"
  by (simp add: next_step_def split: prod.splits)

lemma next_step_Inl [simp]: "next_step (Inl e, tr) f = (Inl e, tr)"
  by (simp add: next_step_def)

lemma try_except_Inl [simp]: "try_except (Inl e, tr) h = (fst (h e), tr @ snd (h e))"
  by (simp add: try_except_def split: prod.splits)

lemma try_except_Inr [simp]: "try_except (Inr x, tr) h = (Inr x, tr)"
  by (simp add: try_except_def)

lemmas run_defs = pure_def emit_def finish_def

lemma str_contains_iff: "str_contains sub s \<longleftrightarrow> (\<exists>p q. s = p @ sub @ q)"
proof (induction s)
  case Nil
  then show ?case by auto
next
  case (Cons c cs)
  show ?case
  proof
    assume "str_contains sub (c # cs)"
    then consider "prefix sub (c # cs)" | "str_contains sub cs" by auto
    then show "\<exists>p q. c # cs = p @ sub @ q"
    proof cases
      case 1
      then obtain q where "c # cs = sub @ q" by (auto simp: prefix_def)
      then have "c # cs = [] @ sub @ q" by simp
      then show ?thesis by blast
    next
      case 2
      with Cons.IH obtain p q where "cs = p @ sub @ q" by blast
      then have "c # cs = (c # p) @ sub @ q" by simp
      then show ?thesis by blast
    qed
  next
    assume "\<exists>p q. c # cs = p @ sub @ q"
    then obtain p q where eq: "c # cs = p @ sub @ q" by blast
    show "str_contains sub (c # cs)"
    proof (cases p)
      case Nil
      with eq have "prefix sub (c # cs)" by (simp add: prefix_def)
      then show ?thesis by simp
    next
      case (Cons a p')
      with eq have "cs = p' @ sub @ q" by simp
      with Cons.IH have "str_contains sub cs" by blast
      then show ?thesis by simp
    qed
  qed
qed

lemma str_contains_single: "str_contains [c] s \<longleftrightarrow> c \<in> set s"
  by (induction s) auto

lemma split_on_not_Nil: "split_on sep s \<noteq> []"
  by (induction s) (auto split: list.splits)

lemma split_on_without_sep: "sep \<notin> set s \<Longrightarrow> split_on sep s = [s]"
  by (induction s) auto

lemma length_split_on: "length (split_on sep s) = Suc (length (filter (\<lambda>c. c = sep) s))"
  by (induction s) (auto split: list.splits)

lemma last_split_on_append: "last (split_on sep (p @ sep # q)) = last (split_on sep q)"
proof (induction p)
  case Nil
  then show ?case by (simp add: split_on_not_Nil)
next
  case (Cons a p)
  have "length (split_on sep (p @ sep # q)) \<ge> 2"
    by (simp add: length_split_on)
  then obtain w w' ws where "split_on sep (p @ sep # q) = w # w' # ws"
    by (cases "split_on sep (p @ sep # q)"; cases "tl (split_on sep (p @ sep # q))") auto
  with Cons show ?case by auto
qed

lemma takeWhile_rev_all: "sep \<notin> set s \<Longrightarrow> takeWhile (\<lambda>c. c \<noteq> sep) (rev s) = rev s"
  by (induction s) auto

lemma takeWhile_rev_stop: "sep \<notin> set q \<Longrightarrow> takeWhile (\<lambda>c. c \<noteq> sep) (rev q @ sep # r) = rev q"
  by (subst takeWhile_append2) auto

lemma after_last_colon_append: "CHR '':'' \<notin> set q \<Longrightarrow> after_last_colon (p @ CHR '':'' # q) = q"
  by (simp add: after_last_colon_def takeWhile_rev_stop)

lemma after_last_colon_none: "CHR '':'' \<notin> set s \<Longrightarrow> after_last_colon s = s"
  by (simp add: after_last_colon_def takeWhile_rev_all)

lemma last_split_on: "last (split_on CHR '':'' s) = after_last_colon s"
proof (cases "CHR '':'' \<in> set s")
  case False
  then show ?thesis
    by (simp add: split_on_without_sep after_last_colon_none)
next
  case True
  then obtain p q where s: "s = p @ CHR '':'' # q" and q: "CHR '':'' \<notin> set q"
    by (auto dest: split_list_last)
  have "last (split_on CHR '':'' s) = q"
    using q by (simp add: s last_split_on_append split_on_without_sep)
  with q show ?thesis
    by (simp add: s after_last_colon_append)
qed

lemma py_split_last_str: "py_split_last (PStr s) = Inr (PStr (after_last_colon s))"
proof (cases "rev (split_on CHR '':'' s)")
  case Nil
  then show ?thesis by (simp add: split_on_not_Nil)
next
  case (Cons w ws)
  then have "split_on CHR '':'' s = rev (w # ws)"
    by (metis rev_rev_ident)
  then have "last (split_on CHR '':'' s) = w" by simp
  then have "w = after_last_colon s"
    using last_split_on [of s] by simp
  with Cons show ?thesis by simp
qed

lemma resolve_user_name_str:
  assumes "map_of u ''userName'' = Some (PStr a) \<and> a \<noteq> []
           \<or> map_of u ''userName'' = None \<and> map_of u ''principalId'' = Some (PStr a)"
  shows "resolve_user_name (PDict u) = Inr (PStr (after_last_colon a))"
  using assms
  by (auto simp: resolve_user_name_def str_contains_single py_split_last_str after_last_colon_none
           simp del: py_split_last.simps)

lemma send_unconfigured:
  "SLACK_WEBHOOK_URL rt = [] \<Longrightarrow>
   send_slack_notification rt message
     = (Inr (), [Log ERROR ''SLACK_WEBHOOK_URL not set in environment variables.''])"
  by (simp add: send_slack_notification_def run_defs)

lemma send_request_refused:
  "SLACK_WEBHOOK_URL rt \<noteq> [] \<Longrightarrow>
   Request rt (SLACK_WEBHOOK_URL rt) (json_dumps rt message) = Inl e \<Longrightarrow>
   send_slack_notification rt message = (Inl e, [])"
  by (simp add: send_slack_notification_def run_defs)

lemma send_call_failed:
  "SLACK_WEBHOOK_URL rt \<noteq> [] \<Longrightarrow>
   Request rt (SLACK_WEBHOOK_URL rt) (json_dumps rt message) = Inr () \<Longrightarrow>
   urlopen rt (SLACK_WEBHOOK_URL rt) (json_dumps rt message) = Inl e \<Longrightarrow>
   send_slack_notification rt message
     = (Inr (), [HttpPost (SLACK_WEBHOOK_URL rt) (json_dumps rt message),
                 Log ERROR (''Error sending Slack notification: '' @ exn_message e)])"
  by (simp add: send_slack_notification_def run_defs)

lemma send_call_answered:
  "SLACK_WEBHOOK_URL rt \<noteq> [] \<Longrightarrow>
   Request rt (SLACK_WEBHOOK_URL rt) (json_dumps rt message) = Inr () \<Longrightarrow>
   urlopen rt (SLACK_WEBHOOK_URL rt) (json_dumps rt message) = Inr status \<Longrightarrow>
   send_slack_notification rt message
     = (Inr (), [HttpPost (SLACK_WEBHOOK_URL rt) (json_dumps rt message),
                 Log INFO (''Slack Notification Sent! Response Code: '' @ str_of rt (PInt status))])"
  by (simp add: send_slack_notification_def run_defs)

lemma try_block_unlisted:
  assumes "parse_envelope event = Inr env"
    and "resolve_user_name (ev_user_identity env) = Inr user_name"
    and "py_in ''@xyz.com'' user_name = Inr False"
  shows "try_block rt event =
           (Inr \<lparr>statusCode = 200, body = ''User not in notify list.''\<rparr>,
            [Log INFO (''User '' @ py_format rt user_name
                       @ '' does not match notification criteria. Skipping.'')])"
  using assms by (simp add: try_block_def run_defs)

lemma try_block_listed:
  assumes "parse_envelope event = Inr env"
    and "resolve_user_name (ev_user_identity env) = Inr user_name"
    and "py_in ''@xyz.com'' user_name = Inr True"
    and "extract_resource_details (ev_detail env) (ev_event_name env) = Inr (k, v)"
    and "slack_message = PDict [(''text'', PStr (slack_text rt user_name (ev_event_source env)
                                   (ev_event_name env) k v (ev_aws_region env) (ev_event_time env)))]"
  shows "try_block rt event =
           (case fst (send_slack_notification rt slack_message) of
              Inl e \<Rightarrow> Inl e
            | Inr u \<Rightarrow> Inr \<lparr>statusCode = 200,
                            body = json_dumps rt (PDict [(''message'', PStr ''Notification sent''),
                                                         (''slack_message'', slack_message)])\<rparr>,
            [Call ''extract_resource_details'' [ev_detail env, ev_event_name env],
             Log INFO (''Sending Slack alert: '' @ str_of rt slack_message),
             Call ''send_slack_notification'' [slack_message]]
            @ snd (send_slack_notification rt slack_message))"
proof (cases "send_slack_notification rt slack_message")
  case (Pair res tr)
  then show ?thesis
    using assms
    by (cases res) (simp_all add: try_block_def Let_def run_defs)
qed

lemma try_block_status:
  "try_block rt event = (Inr ok, tr) \<Longrightarrow> statusCode ok = 200"
  by (auto simp: try_block_def next_step_def pure_def emit_def finish_def Let_def
           split: sum.splits prod.splits if_splits)

lemma handler_after_try:
  "lambda_handler rt event =
     (case try_block rt event of
        (Inl e, tr) \<Rightarrow>
          (Inr \<lparr>statusCode = 500, body = ''Error processing event: '' @ exn_message e\<rparr>,
           Log INFO (''Received event: '' @ json_dumps rt event) # tr
           @ [Log ERROR (''Error processing event: '' @ exn_message e)])
      | (Inr ok, tr) \<Rightarrow> (Inr ok, Log INFO (''Received event: '' @ json_dumps rt event) # tr))"
  by (cases "try_block rt event"; cases "fst (try_block rt event)")
     (simp_all add: lambda_handler_def run_defs)

lemma parse_envelope_detail:
  assumes "parse_envelope event = Inr env"
  shows "\<exists>d. ev_detail env = PDict d"
proof -
  obtain dv where dv: "py_get event ''detail'' (PDict []) = Inr dv"
    using assms by (cases "py_get event ''detail'' (PDict [])") (simp_all add: parse_envelope_def)
  with assms obtain d where "dv = PDict d"
    by (cases dv) (simp_all add: parse_envelope_def)
  with assms dv show ?thesis
    by (auto simp: parse_envelope_def)
qed

section \<open>The extractor: claims C3, C4, C5 and C6\<close>

lemma unregistered_gives_default:
  "event_name \<notin> PStr ` set registered_event_names \<Longrightarrow>
   extract_resource_details (PDict d) event_name = Inr ([], PStr [])"
  unfolding extract_resource_details_def registered_event_names_def
  by (simp add: image_iff)

lemma registered_names_have_a_rule:
  assumes "n \<in> set registered_event_names"
  shows "\<exists>label v. label \<noteq> [] \<and>
           extract_resource_details
             (PDict [(''responseElements'',
                PDict [(''instancesSet'', PDict [(''items'', PList [PDict []])]),
                       (''loadBalancers'', PList [PDict []])])])
             (PStr n) = Inr (label, v)"
  using assms unfolding registered_event_names_def
  by (auto simp: extract_resource_details_def)

text \<open>
  C5. For every event name that is not one of the names registered in the extractor,
  such as \<open>UnknownThing\<close>, and every detail mapping, \<open>extract_resource_details\<close> returns
  exactly the pair \<open>("", "")\<close>.
\<close>

theorem unregistered_event_name_yields_empty_pair:
  "n \<notin> set registered_event_names \<Longrightarrow>
   extract_resource_details (PDict d) (PStr n) = Inr ([], PStr [])"
  by (rule unregistered_gives_default) auto

theorem unregistered_event_name_yields_empty_pair_witness:
  "''UnknownThing'' \<notin> set registered_event_names \<and>
   extract_resource_details (PDict [(''responseElements'', PNone)]) (PStr ''UnknownThing'')
     = Inr ([], PStr [])"
proof -
  have h: "''UnknownThing'' \<notin> set registered_event_names"
    by (simp add: registered_event_names_def)
  show ?thesis
    using h unregistered_event_name_yields_empty_pair [OF h, of "[(''responseElements'', PNone)]"]
    by simp
qed

text \<open>
  C4, as the code has it. For \<open>CreateDBInstance\<close> with a \<open>responseElements\<close> that lacks
  \<open>dBInstanceIdentifier\<close> the extractor returns the label with an empty value, not the
  pair of two empty strings that its docstring promises when nothing is found.
\<close>

theorem missing_db_identifier_keeps_label:
  "extract_resource_details (PDict [(''responseElements'', PDict [])]) (PStr ''CreateDBInstance'')
     = Inr (''DB_Instance_ID'', PStr [])"
  by (simp add: extract_resource_details_def)

text \<open>
  The same holds for every registered name but the four that read a list: on a detail
  with no field at all they return their label with an empty value, and only the four
  return the pair of two empty strings.
\<close>

lemma missing_field_keeps_label:
  assumes "n \<in> set registered_event_names"
  shows "\<exists>label. extract_resource_details (PDict []) (PStr n) = Inr (label, PStr [])
           \<and> (label = [] \<longleftrightarrow> n \<in> set [''TerminateInstances'', ''RunInstances'',
                                          ''CreateLoadBalancer'', ''DeleteLoadBalancer''])"
  using assms unfolding registered_event_names_def
  by (auto simp: extract_resource_details_def)

lemma last_step:
  "rule_outcome label [] v (Inr (label, v))"
  by (simp add: rule_outcome_def)

lemma key_step:
  assumes "\<And>x. rule_outcome label rest x (g x)"
    and "g dflt = Inr (k', PStr [])"
    and "k' = label \<or> k' = [] \<and> First \<in> set rest"
  shows "rule_outcome label (Key k # rest) v (and_then (py_get v k dflt) g)"
proof (cases v)
  case (PDict d)
  show ?thesis
  proof (cases "map_of d k")
    case None
    with PDict assms(2,3) show ?thesis by (auto simp: rule_outcome_def)
  next
    case (Some x)
    with PDict assms(1) [of x] show ?thesis by (auto simp: rule_outcome_def)
  qed
qed (simp_all add: rule_outcome_def)

lemma first_step:
  assumes "\<And>x. rule_outcome label (Key k # rest) x (g x)"
  shows "rule_outcome label (First # Key k # rest) v
           (if truthy v then and_then (py_item0 v) g else Inr ([], PStr []))"
proof (cases v)
  case (PList xs)
  show ?thesis
  proof (cases xs)
    case Nil
    with PList show ?thesis by (simp add: rule_outcome_def)
  next
    case (Cons x xs')
    with PList assms [of x] show ?thesis by (auto simp: rule_outcome_def)
  qed
next
  case (PStr s)
  show ?thesis
  proof (cases s)
    case Nil
    with PStr show ?thesis by (simp add: rule_outcome_def)
  next
    case (Cons c cs)
    with PStr assms [of "PStr (c # takeWhile utf8_continuation cs)"] show ?thesis
      by (simp add: rule_outcome_def)
  qed
qed (simp_all add: rule_outcome_def)

lemma top_step:
  assumes "\<And>x. rule_outcome label (Key k # rest) x (h x)"
  shows "rule_outcome label (Key field # Key k # rest) (PDict d)
           (h (case map_of d field of None \<Rightarrow> PDict [] | Some v \<Rightarrow> v))"
proof (cases "map_of d field")
  case None
  with assms [of "PDict []"] show ?thesis by (auto simp: rule_outcome_def)
next
  case (Some x)
  with assms [of x] show ?thesis by (auto simp: rule_outcome_def)
qed

lemma direct_rule:
  "rule_outcome label [Key field, Key k] (PDict d)
     (and_then (py_get (case map_of d field of None \<Rightarrow> PDict [] | Some v \<Rightarrow> v) k (PStr []))
        (\<lambda>resourceValue. Inr (label, resourceValue)))"
  by (rule top_step [where h = "\<lambda>top. and_then (py_get top k (PStr []))
                                   (\<lambda>resourceValue. Inr (label, resourceValue))"])
     (rule key_step [where k' = label], rule last_step, simp_all)

lemma nested_rule:
  "rule_outcome label [Key field, Key k1, Key k2] (PDict d)
     (and_then (py_get (case map_of d field of None \<Rightarrow> PDict [] | Some v \<Rightarrow> v) k1 (PDict []))
        (\<lambda>inner. and_then (py_get inner k2 (PStr []))
        (\<lambda>resourceValue. Inr (label, resourceValue))))"
  by (rule top_step [where h = "\<lambda>top. and_then (py_get top k1 (PDict []))
                                   (\<lambda>inner. and_then (py_get inner k2 (PStr []))
                                   (\<lambda>resourceValue. Inr (label, resourceValue)))"])
     (rule key_step [where k' = label], rule key_step [where k' = label], rule last_step, simp_all)

lemma list_rule:
  "rule_outcome label [Key field, Key k1, First, Key k2] (PDict d)
     (and_then (py_get (case map_of d field of None \<Rightarrow> PDict [] | Some v \<Rightarrow> v) k1 (PList []))
        (\<lambda>xs. if truthy xs then
                 and_then (py_item0 xs) (\<lambda>item0.
                 and_then (py_get item0 k2 (PStr [])) (\<lambda>resourceValue.
                 Inr (label, resourceValue)))
               else Inr ([], PStr [])))"
  by (rule top_step [where h = "\<lambda>top. and_then (py_get top k1 (PList []))
        (\<lambda>xs. if truthy xs then
                 and_then (py_item0 xs) (\<lambda>item0.
                 and_then (py_get item0 k2 (PStr [])) (\<lambda>resourceValue.
                 Inr (label, resourceValue)))
               else Inr ([], PStr []))"])
     (rule key_step [where k' = "[]"], rule first_step, rule key_step [where k' = label],
      rule last_step, simp_all)

lemma nested_list_rule:
  "rule_outcome label [Key field, Key k0, Key k1, First, Key k2] (PDict d)
     (and_then (py_get (case map_of d field of None \<Rightarrow> PDict [] | Some v \<Rightarrow> v) k0 (PDict []))
        (\<lambda>inner. and_then (py_get inner k1 (PList []))
        (\<lambda>xs. if truthy xs then
                 and_then (py_item0 xs) (\<lambda>item0.
                 and_then (py_get item0 k2 (PStr [])) (\<lambda>resourceValue.
                 Inr (label, resourceValue)))
               else Inr ([], PStr []))))"
  by (rule top_step [where h = "\<lambda>top. and_then (py_get top k0 (PDict []))
        (\<lambda>inner. and_then (py_get inner k1 (PList []))
        (\<lambda>xs. if truthy xs then
                 and_then (py_item0 xs) (\<lambda>item0.
                 and_then (py_get item0 k2 (PStr [])) (\<lambda>resourceValue.
                 Inr (label, resourceValue)))
               else Inr ([], PStr [])))"])
     (rule key_step [where k' = "[]"], rule key_step [where k' = "[]"], rule first_step,
      rule key_step [where k' = label], rule last_step, simp_all)

lemma rule_for_unregistered:
  "n \<notin> set registered_event_names \<Longrightarrow> rule_for n = None"
  by (simp add: rule_for_def extraction_table_def registered_event_names_def)

lemma extract_follows_rule:
  "case rule_for n of
     None \<Rightarrow> extract_resource_details (PDict d) (PStr n) = Inr ([], PStr [])
   | Some (label, steps) \<Rightarrow>
       rule_outcome label steps (PDict d) (extract_resource_details (PDict d) (PStr n))"
proof (cases "n \<in> set registered_event_names")
  case False
  then show ?thesis
    using unregistered_gives_default [of "PStr n" d] by (auto simp: rule_for_unregistered)
next
  case True
  then have "n = ''TerminateInstances'' \<or> n = ''RunInstances'' \<or> n = ''CreateDBInstance''
      \<or> n = ''DeleteDBInstance'' \<or> n = ''CreateLoadBalancer'' \<or> n = ''DeleteLoadBalancer''
      \<or> n = ''CreateUser'' \<or> n = ''DeleteUser'' \<or> n = ''CreateGroup'' \<or> n = ''DeleteGroup''
      \<or> n = ''CreateRole'' \<or> n = ''DeleteRole'' \<or> n = ''CreatePolicy'' \<or> n = ''DeletePolicy''
      \<or> n = ''CreateCluster'' \<or> n = ''DeleteCluster'' \<or> n = ''CreateRestApi''
      \<or> n = ''DeleteRestApi'' \<or> n = ''CreatePipeline'' \<or> n = ''DeletePipeline''
      \<or> n = ''CreateProject'' \<or> n = ''DeleteProject'' \<or> n = ''UpdateProject''
      \<or> n = ''CreateApplication'' \<or> n = ''DeleteApplication'' \<or> n = ''CreateHostedZone''
      \<or> n = ''DeleteHostedZone'' \<or> n = ''CreateSecret'' \<or> n = ''DeleteSecret''
      \<or> n = ''CreateRepository'' \<or> n = ''DeleteRepository'' \<or> n = ''CreateAutoScalingGroup''
      \<or> n = ''DeleteAutoScalingGroup''"
    by (simp add: registered_event_names_def)
  then show ?thesis
    by (elim disjE)
       (simp_all add: rule_for_def extraction_table_def extract_resource_details_def
                      direct_rule nested_rule list_rule nested_list_rule)
qed

lemma rule_for_registered:
  "n \<in> set registered_event_names \<Longrightarrow> \<exists>label steps. rule_for n = Some (label, steps)"
  unfolding registered_event_names_def
  by (auto simp: rule_for_def extraction_table_def)

text \<open>
  C3 as stated fails: a value of another type where a mapping is expected makes the
  extractor raise. Here \<open>responseElements\<close> is \<open>null\<close>, and the first element of
  \<open>loadBalancers\<close> is a string.
\<close>

theorem type_mismatch_raises:
  "extract_resource_details (PDict [(''responseElements'', PNone)]) (PStr ''CreateDBInstance'')
     = Inl (no_attribute PNone ''get'')
   \<and> extract_resource_details
         (PDict [(''responseElements'', PDict [(''loadBalancers'', PList [PStr ''lb''])])])
         (PStr ''CreateLoadBalancer'')
     = Inl (no_attribute (PStr ''lb'') ''get'')"
  by (simp add: extract_resource_details_def)

text \<open>
  C3, amended. For every event name and every detail mapping: an event name without a
  rule gives \<open>("", "")\<close>. For an event name with a rule, when every value that is there
  on the path of this rule can be read as the code reads it (a mapping wherever a key
  is looked up; a non-empty list, or a falsy value, where the first element is taken),
  the extractor returns normally, missing keys and empty lists included: the value is
  the one the path reaches, and the empty string when the path reaches none. When a
  value on the path has another type, the extractor raises.
\<close>

theorem extractor_follows_its_rule:
  "(rule_for n = None \<longrightarrow> extract_resource_details (PDict d) (PStr n) = Inr ([], PStr []))
   \<and> (\<forall>label steps. rule_for n = Some (label, steps) \<longrightarrow>
        (passable steps (PDict d) \<longrightarrow>
           (\<exists>k. extract_resource_details (PDict d) (PStr n)
                  = Inr (k, case follow steps (PDict d) of None \<Rightarrow> PStr [] | Some v \<Rightarrow> v)
                \<and> (k = label \<or> k = [] \<and> First \<in> set steps \<and> follow steps (PDict d) = None)))
        \<and> (\<not> passable steps (PDict d) \<longrightarrow>
           (\<exists>e. extract_resource_details (PDict d) (PStr n) = Inl e)))"
  using extract_follows_rule [where n = n and d = d]
  by (auto simp: rule_outcome_def split: option.splits if_splits)

theorem extractor_follows_its_rule_witness:
  "rule_for ''CreateUser'' = Some (''User_ID'', [Key ''responseElements'', Key ''user'', Key ''userName''])
   \<and> passable [Key ''responseElements'', Key ''user'', Key ''userName'']
        (PDict [(''responseElements'', PDict [(''loadBalancers'', PList [PStr ''lb''])])])
   \<and> extract_resource_details
        (PDict [(''responseElements'', PDict [(''loadBalancers'', PList [PStr ''lb''])])])
        (PStr ''CreateUser'')
      = Inr (''User_ID'', PStr [])
   \<and> rule_for ''CreateRestApi'' = Some (''RestApi'', [Key ''responseElements'', Key ''id''])
   \<and> extract_resource_details (PDict [(''responseElements'', PDict [(''id'', PStr ''a1b2'')])])
        (PStr ''CreateRestApi'')
      = Inr (''RestApi'', PStr ''a1b2'')
   \<and> rule_for ''CreateLoadBalancer''
      = Some (''LoadBalancer_ID'',
              [Key ''responseElements'', Key ''loadBalancers'', First, Key ''loadBalancerName''])
   \<and> \<not> passable [Key ''responseElements'', Key ''loadBalancers'', First, Key ''loadBalancerName'']
        (PDict [(''responseElements'', PDict [(''loadBalancers'', PList [PStr ''lb''])])])
   \<and> (\<exists>e. extract_resource_details
              (PDict [(''responseElements'', PDict [(''loadBalancers'', PList [PStr ''lb''])])])
              (PStr ''CreateLoadBalancer'') = Inl e)
   \<and> rule_for ''UnknownThing'' = None
   \<and> extract_resource_details (PDict [(''responseElements'', PNone)]) (PStr ''UnknownThing'')
      = Inr ([], PStr [])"
proof -
  have rules: "rule_for ''CreateUser''
                 = Some (''User_ID'', [Key ''responseElements'', Key ''user'', Key ''userName''])"
    "rule_for ''CreateRestApi'' = Some (''RestApi'', [Key ''responseElements'', Key ''id''])"
    "rule_for ''CreateLoadBalancer''
       = Some (''LoadBalancer_ID'',
               [Key ''responseElements'', Key ''loadBalancers'', First, Key ''loadBalancerName''])"
    "rule_for ''UnknownThing'' = None"
    by (simp_all add: rule_for_def extraction_table_def)
  have 1: "passable [Key ''responseElements'', Key ''user'', Key ''userName'']
        (PDict [(''responseElements'', PDict [(''loadBalancers'', PList [PStr ''lb''])])])
      \<and> extract_resource_details
        (PDict [(''responseElements'', PDict [(''loadBalancers'', PList [PStr ''lb''])])])
        (PStr ''CreateUser'')
      = Inr (''User_ID'', PStr [])"
    using extractor_follows_its_rule
            [of "''CreateUser''" "[(''responseElements'', PDict [(''loadBalancers'', PList [PStr ''lb''])])]"]
          rules(1)
    by auto
  have 2: "extract_resource_details (PDict [(''responseElements'', PDict [(''id'', PStr ''a1b2'')])])
        (PStr ''CreateRestApi'')
      = Inr (''RestApi'', PStr ''a1b2'')"
    using extractor_follows_its_rule
            [of "''CreateRestApi''" "[(''responseElements'', PDict [(''id'', PStr ''a1b2'')])]"]
          rules(2)
    by auto
  have 3: "\<not> passable [Key ''responseElements'', Key ''loadBalancers'', First, Key ''loadBalancerName'']
        (PDict [(''responseElements'', PDict [(''loadBalancers'', PList [PStr ''lb''])])])
      \<and> (\<exists>e. extract_resource_details
              (PDict [(''responseElements'', PDict [(''loadBalancers'', PList [PStr ''lb''])])])
              (PStr ''CreateLoadBalancer'') = Inl e)"
    using extractor_follows_its_rule
            [of "''CreateLoadBalancer''"
                "[(''responseElements'', PDict [(''loadBalancers'', PList [PStr ''lb''])])]"]
          rules(3)
    by auto
  have 4: "extract_resource_details (PDict [(''responseElements'', PNone)]) (PStr ''UnknownThing'')
      = Inr ([], PStr [])"
    using extractor_follows_its_rule [of "''UnknownThing''" "[(''responseElements'', PNone)]"] rules(4)
    by simp
  from rules 1 2 3 4 show ?thesis by blast
qed

lemma path_field_Cons: "path_field (k # ks) v = Some x \<longleftrightarrow> (\<exists>d y. v = PDict d \<and> map_of d k = Some y \<and> path_field ks y = Some x)"
  by (cases v) (auto split: option.splits)

lemma dicts_along_Cons: "dicts_along (k # ks) v \<longleftrightarrow> (\<exists>d. v = PDict d \<and> (\<forall>y. map_of d k = Some y \<longrightarrow> dicts_along ks y))"
  by (cases v) (auto split: option.splits)


lemma instances_branch:
  assumes "n = ''RunInstances'' \<or> n = ''TerminateInstances''"
  shows "extract_resource_details (PDict d) (PStr n) =
     and_then (py_get (case map_of d ''responseElements'' of None \<Rightarrow> PDict [] | Some v \<Rightarrow> v) ''instancesSet'' (PDict [])) (\<lambda>instances_set.
       and_then (py_get instances_set ''items'' (PList [])) (\<lambda>items.
       if truthy items then
         and_then (py_item0 items) (\<lambda>item0.
         and_then (py_get item0 ''instanceId'' (PStr [])) (\<lambda>resourceValue.
         Inr (''Instance_ID'', resourceValue)))
       else Inr ([], PStr [])))"
  using assms by (elim disjE) (simp_all add: extract_resource_details_def)

text \<open>
  C6 as stated fails where a value on the way to the list, or the first element of the
  list, is not a mapping: with \<open>responseElements\<close> \<open>null\<close> the list is absent and the
  extractor raises, and with a string as first element it raises.
\<close>

theorem instance_events_raise_on_type_mismatch:
  "extract_resource_details (PDict [(''responseElements'', PNone)]) (PStr ''RunInstances'')
     = Inl (no_attribute PNone ''get'')
   \<and> extract_resource_details
         (PDict [(''responseElements'',
            PDict [(''instancesSet'', PDict [(''items'', PList [PStr ''i-0abc''])])])])
         (PStr ''TerminateInstances'')
     = Inl (no_attribute (PStr ''i-0abc'') ''get'')"
  by (simp add: extract_resource_details_def)

text \<open>
  C6, amended. For \<open>RunInstances\<close> and \<open>TerminateInstances\<close> and a detail mapping: when
  \<open>detail.responseElements.instancesSet.items\<close> is a non-empty list whose first element is
  a mapping, the extractor returns \<open>("Instance_ID", v)\<close> with \<open>v\<close> the \<open>instanceId\<close> of that
  element, the empty string when the element has none; when the list is empty, or
  absent because a key on the way to it is missing, and the values that are on the way
  are mappings, it returns \<open>("", "")\<close>; when a value on the way is not a mapping, or
  the first element of the list is not one, it raises.
\<close>

theorem instance_events_read_first_item:
  assumes n: "n = ''RunInstances'' \<or> n = ''TerminateInstances''"
  shows "(path_field [''responseElements'', ''instancesSet'', ''items''] (PDict d) = Some (PList (PDict item # rest))
          \<longrightarrow> extract_resource_details (PDict d) (PStr n)
              = Inr (''Instance_ID'', case map_of item ''instanceId'' of None \<Rightarrow> PStr [] | Some v \<Rightarrow> v))
       \<and> (dicts_along [''responseElements'', ''instancesSet'', ''items''] (PDict d)
          \<and> (path_field [''responseElements'', ''instancesSet'', ''items''] (PDict d) = None
             \<or> path_field [''responseElements'', ''instancesSet'', ''items''] (PDict d) = Some (PList []))
          \<longrightarrow> extract_resource_details (PDict d) (PStr n) = Inr ([], PStr []))
       \<and> (\<not> dicts_along [''responseElements'', ''instancesSet'', ''items''] (PDict d)
          \<longrightarrow> (\<exists>e. extract_resource_details (PDict d) (PStr n) = Inl e))
       \<and> (path_field [''responseElements'', ''instancesSet'', ''items''] (PDict d) = Some (PList (x # rest))
          \<and> (\<forall>item. x \<noteq> PDict item)
          \<longrightarrow> (\<exists>e. extract_resource_details (PDict d) (PStr n) = Inl e))"
proof (intro conjI impI)
  assume "path_field [''responseElements'', ''instancesSet'', ''items''] (PDict d) = Some (PList (PDict item # rest))"
  then obtain re iset where "map_of d ''responseElements'' = Some (PDict re)"
    "map_of re ''instancesSet'' = Some (PDict iset)" "map_of iset ''items'' = Some (PList (PDict item # rest))"
    by (auto simp: path_field_Cons split: option.splits)
  then show "extract_resource_details (PDict d) (PStr n)
              = Inr (''Instance_ID'', case map_of item ''instanceId'' of None \<Rightarrow> PStr [] | Some v \<Rightarrow> v)"
    by (simp add: instances_branch [OF n])
next
  assume a: "dicts_along [''responseElements'', ''instancesSet'', ''items''] (PDict d)
          \<and> (path_field [''responseElements'', ''instancesSet'', ''items''] (PDict d) = None
             \<or> path_field [''responseElements'', ''instancesSet'', ''items''] (PDict d) = Some (PList []))"
  show "extract_resource_details (PDict d) (PStr n) = Inr ([], PStr [])"
  proof (cases "map_of d ''responseElements''")
    case None
    then show ?thesis by (simp add: instances_branch [OF n])
  next
    case (Some x)
    with a obtain re where re: "x = PDict re" by (auto simp: dicts_along_Cons)
    show ?thesis
    proof (cases "map_of re ''instancesSet''")
      case None
      with Some re show ?thesis by (simp add: instances_branch [OF n])
    next
      case inner: (Some y)
      with a Some re obtain insts where insts: "y = PDict insts" by (auto simp: dicts_along_Cons)
      from a Some re inner insts
      have "map_of insts ''items'' = None \<or> map_of insts ''items'' = Some (PList [])"
        by (auto split: option.splits)
      with Some re inner insts show ?thesis by (auto simp: instances_branch [OF n])
    qed
  qed
next
  assume bad: "\<not> dicts_along [''responseElements'', ''instancesSet'', ''items''] (PDict d)"
  then obtain y where y: "map_of d ''responseElements'' = Some y"
    and y_bad: "\<not> dicts_along [''instancesSet'', ''items''] y"
    by (auto split: option.splits)
  show "\<exists>e. extract_resource_details (PDict d) (PStr n) = Inl e"
  proof (cases "\<exists>re. y = PDict re")
    case False
    with y show ?thesis by (cases y) (simp_all add: instances_branch [OF n])
  next
    case True
    then obtain re where re: "y = PDict re" by blast
    with y_bad obtain z where z: "map_of re ''instancesSet'' = Some z"
      and z_bad: "\<not> dicts_along [''items''] z"
      by (auto split: option.splits)
    from z_bad have "\<forall>insts. z \<noteq> PDict insts" by (auto split: option.splits)
    with y re z show ?thesis by (cases z) (simp_all add: instances_branch [OF n])
  qed
next
  assume a: "path_field [''responseElements'', ''instancesSet'', ''items''] (PDict d) = Some (PList (x # rest))
          \<and> (\<forall>item. x \<noteq> PDict item)"
  then obtain re iset where "map_of d ''responseElements'' = Some (PDict re)"
    "map_of re ''instancesSet'' = Some (PDict iset)" "map_of iset ''items'' = Some (PList (x # rest))"
    by (auto simp: path_field_Cons split: option.splits)
  with a show "\<exists>e. extract_resource_details (PDict d) (PStr n) = Inl e"
    by (cases x) (simp_all add: instances_branch [OF n])
qed

theorem instance_events_read_first_item_witness:
  "path_field [''responseElements'', ''instancesSet'', ''items''] (launch_detail ''alice@xyz.com'')
     = Some (PList [PDict [(''instanceId'', PStr ''i-0abc'')]])
   \<and> extract_resource_details (launch_detail ''alice@xyz.com'') (PStr ''RunInstances'')
     = Inr (''Instance_ID'', PStr ''i-0abc'')
   \<and> dicts_along [''responseElements'', ''instancesSet'', ''items'']
         (PDict [(''responseElements'', PDict [(''instancesSet'', PDict [(''items'', PList [])])])])
   \<and> extract_resource_details
         (PDict [(''responseElements'', PDict [(''instancesSet'', PDict [(''items'', PList [])])])])
         (PStr ''TerminateInstances'')
     = Inr ([], PStr [])
   \<and> dicts_along [''responseElements'', ''instancesSet'', ''items''] (PDict [])
   \<and> extract_resource_details (PDict []) (PStr ''RunInstances'') = Inr ([], PStr [])
   \<and> \<not> dicts_along [''responseElements'', ''instancesSet'', ''items'']
         (PDict [(''responseElements'', PNone)])
   \<and> (\<exists>e. extract_resource_details (PDict [(''responseElements'', PNone)]) (PStr ''RunInstances'')
           = Inl e)"
proof -
  have run: "''RunInstances'' = ''RunInstances'' \<or> ''RunInstances'' = ''TerminateInstances''"
    and stop: "''TerminateInstances'' = ''RunInstances'' \<or> ''TerminateInstances'' = ''TerminateInstances''"
    by simp_all
  have found: "path_field [''responseElements'', ''instancesSet'', ''items''] (launch_detail ''alice@xyz.com'')
     = Some (PList [PDict [(''instanceId'', PStr ''i-0abc'')]])"
    by (simp add: launch_detail_def)
  have 1: "extract_resource_details (launch_detail ''alice@xyz.com'') (PStr ''RunInstances'')
     = Inr (''Instance_ID'', PStr ''i-0abc'')"
    using instance_events_read_first_item [OF run,
            of "[(''eventName'', PStr ''RunInstances''),
                 (''userIdentity'', PDict [(''userName'', PStr ''alice@xyz.com'')]),
                 (''awsRegion'', PStr ''eu-west-1''),
                 (''eventTime'', PStr ''2024-01-01T00:00:00Z''),
                 (''eventSource'', PStr ''ec2.amazonaws.com''),
                 (''responseElements'',
                    PDict [(''instancesSet'',
                       PDict [(''items'', PList [PDict [(''instanceId'', PStr ''i-0abc'')]])])])]"
               "[(''instanceId'', PStr ''i-0abc'')]" "[]" PNone]
    by (simp add: launch_detail_def)
  have 2: "dicts_along [''responseElements'', ''instancesSet'', ''items'']
             (PDict [(''responseElements'', PDict [(''instancesSet'', PDict [(''items'', PList [])])])])
           \<and> extract_resource_details
             (PDict [(''responseElements'', PDict [(''instancesSet'', PDict [(''items'', PList [])])])])
             (PStr ''TerminateInstances'')
           = Inr ([], PStr [])"
    using instance_events_read_first_item [OF stop,
            of "[(''responseElements'', PDict [(''instancesSet'', PDict [(''items'', PList [])])])]"
               "[]" "[]" PNone]
    by simp
  have 3: "dicts_along [''responseElements'', ''instancesSet'', ''items''] (PDict [])
           \<and> extract_resource_details (PDict []) (PStr ''RunInstances'') = Inr ([], PStr [])"
    using instance_events_read_first_item [OF run, of "[]" "[]" "[]" PNone]
    by simp
  have 4: "\<not> dicts_along [''responseElements'', ''instancesSet'', ''items'']
               (PDict [(''responseElements'', PNone)])
           \<and> (\<exists>e. extract_resource_details (PDict [(''responseElements'', PNone)]) (PStr ''RunInstances'')
                   = Inl e)"
    using instance_events_read_first_item [OF run, of "[(''responseElements'', PNone)]" "[]" "[]" PNone]
    by simp
  from found 1 2 3 4 show ?thesis by blast
qed

section \<open>The handler: claims C1, C2, C7, C8, C9 and C10\<close>

lemma envelope_of_scenario_B:
  "parse_envelope scenario_B =
     Inr \<lparr>ev_detail = launch_detail ''bob@other.com'', ev_event_name = PStr ''RunInstances'',
          ev_user_identity = PDict [(''userName'', PStr ''bob@other.com'')],
          ev_aws_region = PStr ''eu-west-1'', ev_event_time = PStr ''2024-01-01T00:00:00Z'',
          ev_event_source = PStr ''ec2.amazonaws.com''\<rparr>"
  by (simp add: parse_envelope_def scenario_B_def launch_detail_def)

lemma envelope_of_scenario_A:
  "parse_envelope scenario_A =
     Inr \<lparr>ev_detail = launch_detail ''alice@xyz.com'', ev_event_name = PStr ''RunInstances'',
          ev_user_identity = PDict [(''userName'', PStr ''alice@xyz.com'')],
          ev_aws_region = PStr ''eu-west-1'', ev_event_time = PStr ''2024-01-01T00:00:00Z'',
          ev_event_source = PStr ''ec2.amazonaws.com''\<rparr>"
  by (simp add: parse_envelope_def scenario_A_def launch_detail_def)

lemma envelope_of_scenario_C:
  "parse_envelope scenario_C =
     Inr \<lparr>ev_detail = PDict [(''eventName'', PStr ''UnknownThing''),
                               (''userIdentity'', PDict [(''userName'', PStr ''alice@xyz.com'')])],
          ev_event_name = PStr ''UnknownThing'',
          ev_user_identity = PDict [(''userName'', PStr ''alice@xyz.com'')],
          ev_aws_region = PStr ''Unknown'', ev_event_time = PStr ''Unknown'',
          ev_event_source = PStr ''Unknown''\<rparr>"
  by (simp add: parse_envelope_def scenario_C_def)

lemma alice_resolved:
  "resolve_user_name (PDict [(''userName'', PStr ''alice@xyz.com'')]) = Inr (PStr ''alice@xyz.com'')"
  by (simp add: resolve_user_name_def)

lemma alice_listed: "py_in ''@xyz.com'' (PStr ''alice@xyz.com'') = Inr True"
  by simp

text \<open>
  C1. When the resolved actor is a string without the marker \<open>@xyz.com\<close>, the handler
  returns the skipped result, status 200 and body \<open>User not in notify list.\<close>, and leaves
  two log records behind: the extractor was not called, \<open>send_slack_notification\<close> was
  not called, no request was sent.
\<close>

theorem unlisted_actor_is_skipped:
  assumes "parse_envelope event = Inr env"
    and "resolve_user_name (ev_user_identity env) = Inr (PStr actor)"
    and "\<not> str_contains ''@xyz.com'' actor"
  shows "lambda_handler rt event =
           (Inr \<lparr>statusCode = 200, body = ''User not in notify list.''\<rparr>,
            [Log INFO (''Received event: '' @ json_dumps rt event),
             Log INFO (''User '' @ actor @ '' does not match notification criteria. Skipping.'')])
       \<and> (\<forall>name args. Call name args \<notin> set (snd (lambda_handler rt event)))
       \<and> (\<forall>url data. HttpPost url data \<notin> set (snd (lambda_handler rt event)))"
proof -
  have "py_in ''@xyz.com'' (PStr actor) = Inr False"
    using assms(3) by simp
  from try_block_unlisted [OF assms(1) assms(2) this, of rt]
  have "lambda_handler rt event =
           (Inr \<lparr>statusCode = 200, body = ''User not in notify list.''\<rparr>,
            [Log INFO (''Received event: '' @ json_dumps rt event),
             Log INFO (''User '' @ actor @ '' does not match notification criteria. Skipping.'')])"
    by (simp add: handler_after_try py_format_def)
  then show ?thesis by simp
qed

theorem unlisted_actor_is_skipped_witness:
  "lambda_handler example_runtime scenario_B =
     (Inr \<lparr>statusCode = 200, body = ''User not in notify list.''\<rparr>,
      [Log INFO ''Received event: <json>'',
       Log INFO ''User bob@other.com does not match notification criteria. Skipping.''])"
proof -
  have who: "resolve_user_name
               (ev_user_identity
                 \<lparr>ev_detail = launch_detail ''bob@other.com'', ev_event_name = PStr ''RunInstances'',
                  ev_user_identity = PDict [(''userName'', PStr ''bob@other.com'')],
                  ev_aws_region = PStr ''eu-west-1'', ev_event_time = PStr ''2024-01-01T00:00:00Z'',
                  ev_event_source = PStr ''ec2.amazonaws.com''\<rparr>)
             = Inr (PStr ''bob@other.com'')"
    by (simp add: resolve_user_name_def)
  have unlisted: "\<not> str_contains ''@xyz.com'' ''bob@other.com''"
    by simp
  show ?thesis
    using unlisted_actor_is_skipped [OF envelope_of_scenario_B who unlisted, of example_runtime]
    by (simp add: example_runtime_def)
qed

text \<open>
  C2. The handler returns a result for every event and never an exception: when a step
  of the \<open>try\<close> statement (reading the envelope, resolving the actor, the filter, the
  extractor, the delivery) raises \<open>e\<close>, the result has status 500 and the message of \<open>e\<close>
  in its body; otherwise it is the result of the \<open>try\<close> statement, with status 200.
\<close>

theorem handler_never_raises:
  "\<exists>r tr. lambda_handler rt event = (Inr r, tr) \<and>
     (case fst (try_block rt event) of
        Inl e \<Rightarrow> r = \<lparr>statusCode = 500, body = ''Error processing event: '' @ exn_message e\<rparr>
      | Inr ok \<Rightarrow> r = ok \<and> statusCode r = 200)"
proof (cases "try_block rt event")
  case (Pair res tr)
  show ?thesis
  proof (cases res)
    case (Inl e)
    with Pair show ?thesis by (simp add: handler_after_try)
  next
    case (Inr ok)
    with Pair try_block_status [of rt event ok tr] show ?thesis
      by (simp add: handler_after_try)
  qed
qed

theorem handler_never_raises_witness:
  "fst (try_block example_runtime PNone) = Inl (no_attribute PNone ''get'')
   \<and> (\<exists>tr. lambda_handler example_runtime PNone =
          (Inr \<lparr>statusCode = 500,
                 body = ''Error processing event: '' @ exn_message (no_attribute PNone ''get'')\<rparr>, tr))"
proof -
  have raised: "fst (try_block example_runtime PNone) = Inl (no_attribute PNone ''get'')"
    by (simp add: try_block_def parse_envelope_def run_defs)
  from handler_never_raises [of example_runtime PNone] raised show ?thesis
    by auto
qed

text \<open>
  C7. The actor is the \<open>userName\<close> of \<open>userIdentity\<close> when that is a non-empty string, and
  the \<open>principalId\<close> when \<open>userName\<close> is absent; of the chosen string the handler keeps the
  part after the last colon, and the whole string when it has no colon.
\<close>

theorem actor_resolution:
  assumes "map_of u ''userName'' = Some (PStr a) \<and> a \<noteq> []
           \<or> map_of u ''userName'' = None \<and> map_of u ''principalId'' = Some (PStr a)"
  shows "resolve_user_name (PDict u) = Inr (PStr (after_last_colon a))
       \<and> (CHR '':'' \<notin> set a \<longrightarrow> after_last_colon a = a)
       \<and> (\<forall>p q. a = p @ CHR '':'' # q \<and> CHR '':'' \<notin> set q \<longrightarrow> after_last_colon a = q)"
  using resolve_user_name_str [OF assms]
  by (auto simp: after_last_colon_none after_last_colon_append)

theorem actor_resolution_witness:
  "resolve_user_name (PDict [(''userName'', PStr ''arn:aws:iam::123:role/xyz.com-svc'')])
     = Inr (PStr ''role/xyz.com-svc'')
   \<and> resolve_user_name (PDict [(''principalId'', PStr ''AIDA123:carol@xyz.com'')])
     = Inr (PStr ''carol@xyz.com'')"
proof -
  have direct: "map_of [(''userName'', PStr ''arn:aws:iam::123:role/xyz.com-svc'')] ''userName''
                  = Some (PStr ''arn:aws:iam::123:role/xyz.com-svc'')
                \<and> ''arn:aws:iam::123:role/xyz.com-svc'' \<noteq> []
              \<or> map_of [(''userName'', PStr ''arn:aws:iam::123:role/xyz.com-svc'')] ''userName'' = None
                \<and> map_of [(''userName'', PStr ''arn:aws:iam::123:role/xyz.com-svc'')] ''principalId''
                  = Some (PStr ''arn:aws:iam::123:role/xyz.com-svc'')"
    by simp
  have fallback: "map_of [(''principalId'', PStr ''AIDA123:carol@xyz.com'')] ''userName''
                  = Some (PStr ''AIDA123:carol@xyz.com'')
                \<and> ''AIDA123:carol@xyz.com'' \<noteq> []
              \<or> map_of [(''principalId'', PStr ''AIDA123:carol@xyz.com'')] ''userName'' = None
                \<and> map_of [(''principalId'', PStr ''AIDA123:carol@xyz.com'')] ''principalId''
                  = Some (PStr ''AIDA123:carol@xyz.com'')"
    by simp
  have "after_last_colon ''arn:aws:iam::123:role/xyz.com-svc'' = ''role/xyz.com-svc''"
    and "after_last_colon ''AIDA123:carol@xyz.com'' = ''carol@xyz.com''"
    by (simp_all add: after_last_colon_def)
  with actor_resolution [OF direct] actor_resolution [OF fallback] show ?thesis
    by simp
qed

text \<open>
  C10. When \<open>userIdentity\<close> has no \<open>principalId\<close>, and its \<open>userName\<close> is missing or falsy
  (the empty string, for one), the actor is the literal \<open>UnknownUser\<close>; it does not hold
  the marker, so the handler returns the skipped result without calling the extractor
  or the delivery.
\<close>

theorem unknown_user_is_skipped:
  assumes "parse_envelope event = Inr env"
    and "ev_user_identity env = PDict u"
    and "map_of u ''principalId'' = None"
    and "map_of u ''userName'' = None \<or> (\<exists>v. map_of u ''userName'' = Some v \<and> \<not> truthy v)"
  shows "resolve_user_name (ev_user_identity env) = Inr (PStr ''UnknownUser'')
       \<and> \<not> str_contains ''@xyz.com'' ''UnknownUser''
       \<and> lambda_handler rt event =
           (Inr \<lparr>statusCode = 200, body = ''User not in notify list.''\<rparr>,
            [Log INFO (''Received event: '' @ json_dumps rt event),
             Log INFO ''User UnknownUser does not match notification criteria. Skipping.''])"
proof -
  have who: "resolve_user_name (ev_user_identity env) = Inr (PStr ''UnknownUser'')"
    using assms(2-4) by (auto simp: resolve_user_name_def)
  have filtered: "py_in ''@xyz.com'' (PStr ''UnknownUser'') = Inr False"
    by simp
  from try_block_unlisted [OF assms(1) who filtered, of rt] who show ?thesis
    by (simp add: handler_after_try py_format_def)
qed

theorem unknown_user_is_skipped_witness:
  "lambda_handler example_runtime (PDict [(''detail'', PDict [(''userIdentity'', PDict [(''userName'', PStr [])])])])
     = (Inr \<lparr>statusCode = 200, body = ''User not in notify list.''\<rparr>,
        [Log INFO ''Received event: <json>'',
         Log INFO ''User UnknownUser does not match notification criteria. Skipping.''])
   \<and> lambda_handler example_runtime (PDict [])
     = (Inr \<lparr>statusCode = 200, body = ''User not in notify list.''\<rparr>,
        [Log INFO ''Received event: <json>'',
         Log INFO ''User UnknownUser does not match notification criteria. Skipping.''])"
proof -
  have e1: "parse_envelope (PDict [(''detail'', PDict [(''userIdentity'', PDict [(''userName'', PStr [])])])])
              = Inr \<lparr>ev_detail = PDict [(''userIdentity'', PDict [(''userName'', PStr [])])],
                     ev_event_name = PStr ''UnknownEvent'',
                     ev_user_identity = PDict [(''userName'', PStr [])],
                     ev_aws_region = PStr ''Unknown'', ev_event_time = PStr ''Unknown'',
                     ev_event_source = PStr ''Unknown''\<rparr>"
    by (simp add: parse_envelope_def)
  have e2: "parse_envelope (PDict [])
              = Inr \<lparr>ev_detail = PDict [], ev_event_name = PStr ''UnknownEvent'',
                     ev_user_identity = PDict [],
                     ev_aws_region = PStr ''Unknown'', ev_event_time = PStr ''Unknown'',
                     ev_event_source = PStr ''Unknown''\<rparr>"
    by (simp add: parse_envelope_def)
  show ?thesis
    using unknown_user_is_skipped [OF e1, of "[(''userName'', PStr [])]" example_runtime]
          unknown_user_is_skipped [OF e2, of "[]" example_runtime]
    by (simp add: example_runtime_def)
qed

lemma launch_extracted:
  "extract_resource_details (launch_detail ''alice@xyz.com'') (PStr ''RunInstances'')
     = Inr (''Instance_ID'', PStr ''i-0abc'')"
  by (simp add: extract_resource_details_def launch_detail_def)

lemma scenario_A_resolved:
  "resolve_user_name
     (ev_user_identity
       \<lparr>ev_detail = launch_detail ''alice@xyz.com'', ev_event_name = PStr ''RunInstances'',
        ev_user_identity = PDict [(''userName'', PStr ''alice@xyz.com'')],
        ev_aws_region = PStr ''eu-west-1'', ev_event_time = PStr ''2024-01-01T00:00:00Z'',
        ev_event_source = PStr ''ec2.amazonaws.com''\<rparr>)
   = Inr (PStr ''alice@xyz.com'')"
  by (simp add: alice_resolved)

lemma scenario_A_extracted:
  "extract_resource_details
     (ev_detail
       \<lparr>ev_detail = launch_detail ''alice@xyz.com'', ev_event_name = PStr ''RunInstances'',
        ev_user_identity = PDict [(''userName'', PStr ''alice@xyz.com'')],
        ev_aws_region = PStr ''eu-west-1'', ev_event_time = PStr ''2024-01-01T00:00:00Z'',
        ev_event_source = PStr ''ec2.amazonaws.com''\<rparr>)
     (ev_event_name
       \<lparr>ev_detail = launch_detail ''alice@xyz.com'', ev_event_name = PStr ''RunInstances'',
        ev_user_identity = PDict [(''userName'', PStr ''alice@xyz.com'')],
        ev_aws_region = PStr ''eu-west-1'', ev_event_time = PStr ''2024-01-01T00:00:00Z'',
        ev_event_source = PStr ''ec2.amazonaws.com''\<rparr>)
   = Inr (''Instance_ID'', PStr ''i-0abc'')"
  by (simp add: launch_extracted)

lemma schemeless_fields:
  "SLACK_WEBHOOK_URL schemeless_runtime = ''hooks.slack.example/services/T000''"
  "json_dumps schemeless_runtime v = ''<json>''"
  "str_of schemeless_runtime v = ''<str>''"
  "Request schemeless_runtime url data
     = Inl (ValueError (''unknown url type: '' @ [CHR 0x27] @ url @ [CHR 0x27]))"
  by (simp_all add: schemeless_runtime_def example_runtime_def)

lemma handler_when_request_refused:
  assumes "parse_envelope event = Inr env"
    and "resolve_user_name (ev_user_identity env) = Inr user_name"
    and "py_in ''@xyz.com'' user_name = Inr True"
    and "extract_resource_details (ev_detail env) (ev_event_name env) = Inr (k, v)"
    and "slack_message = PDict [(''text'', PStr (slack_text rt user_name (ev_event_source env)
                                   (ev_event_name env) k v (ev_aws_region env) (ev_event_time env)))]"
    and "SLACK_WEBHOOK_URL rt \<noteq> []"
    and "Request rt (SLACK_WEBHOOK_URL rt) (json_dumps rt slack_message) = Inl e"
  shows "lambda_handler rt event =
           (Inr \<lparr>statusCode = 500, body = ''Error processing event: '' @ exn_message e\<rparr>,
            [Log INFO (''Received event: '' @ json_dumps rt event),
             Call ''extract_resource_details'' [ev_detail env, ev_event_name env],
             Log INFO (''Sending Slack alert: '' @ str_of rt slack_message),
             Call ''send_slack_notification'' [slack_message],
             Log ERROR (''Error processing event: '' @ exn_message e)])"
  using try_block_listed [OF assms(1-5)] send_request_refused [OF assms(6,7)]
  by (simp add: handler_after_try)

lemma handler_refused_status:
  assumes "parse_envelope event = Inr env"
    and "resolve_user_name (ev_user_identity env) = Inr user_name"
    and "py_in ''@xyz.com'' user_name = Inr True"
    and "extract_resource_details (ev_detail env) (ev_event_name env) = Inr (k, v)"
    and "slack_message = PDict [(''text'', PStr (slack_text rt user_name (ev_event_source env)
                                   (ev_event_name env) k v (ev_aws_region env) (ev_event_time env)))]"
    and "SLACK_WEBHOOK_URL rt \<noteq> []"
    and "Request rt (SLACK_WEBHOOK_URL rt) (json_dumps rt slack_message) = Inl e"
  shows "fst (lambda_handler rt event) =
           Inr \<lparr>statusCode = 500, body = ''Error processing event: '' @ exn_message e\<rparr>"
  using try_block_listed [OF assms(1-5)] send_request_refused [OF assms(6,7)]
  by (simp add: handler_after_try)

text \<open>
  C8 as stated fails: there is a delivery outcome that changes the status. The endpoint
  of \<open>schemeless_runtime\<close> is refused by \<open>Request\<close>, which is built before the inner
  \<open>try\<close> of \<open>send_slack_notification\<close>; for the launch of scenario A by a listed user
  the handler returns status 500.
\<close>

theorem refused_endpoint_changes_status:
  "fst (lambda_handler schemeless_runtime scenario_A) =
     Inr \<lparr>statusCode = 500,
           body = ''Error processing event: unknown url type: ''
                  @ [CHR 0x27] @ ''hooks.slack.example/services/T000'' @ [CHR 0x27]\<rparr>"
proof -
  have "fst (lambda_handler schemeless_runtime scenario_A) =
          Inr \<lparr>statusCode = 500,
                body = ''Error processing event: '' @ exn_message
                  (ValueError (''unknown url type: '' @ [CHR 0x27]
                     @ ''hooks.slack.example/services/T000'' @ [CHR 0x27]))\<rparr>"
    by (rule handler_refused_status
              [OF envelope_of_scenario_A scenario_A_resolved alice_listed scenario_A_extracted refl])
       (simp_all add: schemeless_fields)
  then show ?thesis by simp
qed

text \<open>
  C8, amended. For an event whose actor passes the filter and whose resource is
  extracted: with no \<open>SLACK_WEBHOOK_URL\<close>, \<open>send_slack_notification\<close> logs an error and
  returns with no request sent; when \<open>urlopen\<close> raises, it logs the error and returns;
  in both cases, as when the call is answered, the handler returns status 200 with the
  \<open>Notification sent\<close> body. One outcome of the delivery does change the status: when
  \<open>Request\<close> refuses the configured URL, the exception leaves
  \<open>send_slack_notification\<close> and the handler returns status 500 with its message.
\<close>

theorem delivery_outcome_and_status:
  assumes "parse_envelope event = Inr env"
    and "resolve_user_name (ev_user_identity env) = Inr user_name"
    and "py_in ''@xyz.com'' user_name = Inr True"
    and "extract_resource_details (ev_detail env) (ev_event_name env) = Inr (k, v)"
    and "slack_message = PDict [(''text'', PStr (slack_text rt user_name (ev_event_source env)
                                   (ev_event_name env) k v (ev_aws_region env) (ev_event_time env)))]"
  shows "(SLACK_WEBHOOK_URL rt = [] \<longrightarrow>
            send_slack_notification rt slack_message
              = (Inr (), [Log ERROR ''SLACK_WEBHOOK_URL not set in environment variables.''])
          \<and> lambda_handler rt event =
              (Inr \<lparr>statusCode = 200,
                     body = json_dumps rt (PDict [(''message'', PStr ''Notification sent''),
                                                  (''slack_message'', slack_message)])\<rparr>,
               [Log INFO (''Received event: '' @ json_dumps rt event),
                Call ''extract_resource_details'' [ev_detail env, ev_event_name env],
                Log INFO (''Sending Slack alert: '' @ str_of rt slack_message),
                Call ''send_slack_notification'' [slack_message],
                Log ERROR ''SLACK_WEBHOOK_URL not set in environment variables.'']))
       \<and> (\<forall>e. SLACK_WEBHOOK_URL rt \<noteq> []
              \<and> Request rt (SLACK_WEBHOOK_URL rt) (json_dumps rt slack_message) = Inr ()
              \<and> urlopen rt (SLACK_WEBHOOK_URL rt) (json_dumps rt slack_message) = Inl e \<longrightarrow>
            send_slack_notification rt slack_message
              = (Inr (), [HttpPost (SLACK_WEBHOOK_URL rt) (json_dumps rt slack_message),
                          Log ERROR (''Error sending Slack notification: '' @ exn_message e)])
          \<and> lambda_handler rt event =
              (Inr \<lparr>statusCode = 200,
                     body = json_dumps rt (PDict [(''message'', PStr ''Notification sent''),
                                                  (''slack_message'', slack_message)])\<rparr>,
               [Log INFO (''Received event: '' @ json_dumps rt event),
                Call ''extract_resource_details'' [ev_detail env, ev_event_name env],
                Log INFO (''Sending Slack alert: '' @ str_of rt slack_message),
                Call ''send_slack_notification'' [slack_message],
                HttpPost (SLACK_WEBHOOK_URL rt) (json_dumps rt slack_message),
                Log ERROR (''Error sending Slack notification: '' @ exn_message e)]))
       \<and> (\<forall>status. SLACK_WEBHOOK_URL rt \<noteq> []
              \<and> Request rt (SLACK_WEBHOOK_URL rt) (json_dumps rt slack_message) = Inr ()
              \<and> urlopen rt (SLACK_WEBHOOK_URL rt) (json_dumps rt slack_message) = Inr status \<longrightarrow>
            lambda_handler rt event =
              (Inr \<lparr>statusCode = 200,
                     body = json_dumps rt (PDict [(''message'', PStr ''Notification sent''),
                                                  (''slack_message'', slack_message)])\<rparr>,
               [Log INFO (''Received event: '' @ json_dumps rt event),
                Call ''extract_resource_details'' [ev_detail env, ev_event_name env],
                Log INFO (''Sending Slack alert: '' @ str_of rt slack_message),
                Call ''send_slack_notification'' [slack_message],
                HttpPost (SLACK_WEBHOOK_URL rt) (json_dumps rt slack_message),
                Log INFO (''Slack Notification Sent! Response Code: '' @ str_of rt (PInt status))]))
       \<and> (\<forall>e. SLACK_WEBHOOK_URL rt \<noteq> []
              \<and> Request rt (SLACK_WEBHOOK_URL rt) (json_dumps rt slack_message) = Inl e \<longrightarrow>
            send_slack_notification rt slack_message = (Inl e, [])
          \<and> lambda_handler rt event =
              (Inr \<lparr>statusCode = 500, body = ''Error processing event: '' @ exn_message e\<rparr>,
               [Log INFO (''Received event: '' @ json_dumps rt event),
                Call ''extract_resource_details'' [ev_detail env, ev_event_name env],
                Log INFO (''Sending Slack alert: '' @ str_of rt slack_message),
                Call ''send_slack_notification'' [slack_message],
                Log ERROR (''Error processing event: '' @ exn_message e)]))"
proof (intro conjI impI allI)
  note listed = try_block_listed [OF assms]
  {
    assume "SLACK_WEBHOOK_URL rt = []"
    then show unconfigured: "send_slack_notification rt slack_message
                = (Inr (), [Log ERROR ''SLACK_WEBHOOK_URL not set in environment variables.''])"
      by (rule send_unconfigured)
    show "lambda_handler rt event =
              (Inr \<lparr>statusCode = 200,
                     body = json_dumps rt (PDict [(''message'', PStr ''Notification sent''),
                                                  (''slack_message'', slack_message)])\<rparr>,
               [Log INFO (''Received event: '' @ json_dumps rt event),
                Call ''extract_resource_details'' [ev_detail env, ev_event_name env],
                Log INFO (''Sending Slack alert: '' @ str_of rt slack_message),
                Call ''send_slack_notification'' [slack_message],
                Log ERROR ''SLACK_WEBHOOK_URL not set in environment variables.''])"
      using listed unconfigured by (simp add: handler_after_try)
  }
  {
    fix e
    assume "SLACK_WEBHOOK_URL rt \<noteq> []
              \<and> Request rt (SLACK_WEBHOOK_URL rt) (json_dumps rt slack_message) = Inr ()
              \<and> urlopen rt (SLACK_WEBHOOK_URL rt) (json_dumps rt slack_message) = Inl e"
    then show failed: "send_slack_notification rt slack_message
                = (Inr (), [HttpPost (SLACK_WEBHOOK_URL rt) (json_dumps rt slack_message),
                            Log ERROR (''Error sending Slack notification: '' @ exn_message e)])"
      by (simp add: send_call_failed)
    show "lambda_handler rt event =
              (Inr \<lparr>statusCode = 200,
                     body = json_dumps rt (PDict [(''message'', PStr ''Notification sent''),
                                                  (''slack_message'', slack_message)])\<rparr>,
               [Log INFO (''Received event: '' @ json_dumps rt event),
                Call ''extract_resource_details'' [ev_detail env, ev_event_name env],
                Log INFO (''Sending Slack alert: '' @ str_of rt slack_message),
                Call ''send_slack_notification'' [slack_message],
                HttpPost (SLACK_WEBHOOK_URL rt) (json_dumps rt slack_message),
                Log ERROR (''Error sending Slack notification: '' @ exn_message e)])"
      using listed failed by (simp add: handler_after_try)
  }
  {
    fix status
    assume "SLACK_WEBHOOK_URL rt \<noteq> []
              \<and> Request rt (SLACK_WEBHOOK_URL rt) (json_dumps rt slack_message) = Inr ()
              \<and> urlopen rt (SLACK_WEBHOOK_URL rt) (json_dumps rt slack_message) = Inr status"
    then have "send_slack_notification rt slack_message
                = (Inr (), [HttpPost (SLACK_WEBHOOK_URL rt) (json_dumps rt slack_message),
                            Log INFO (''Slack Notification Sent! Response Code: ''
                                      @ str_of rt (PInt status))])"
      by (simp add: send_call_answered)
    with listed show "lambda_handler rt event =
              (Inr \<lparr>statusCode = 200,
                     body = json_dumps rt (PDict [(''message'', PStr ''Notification sent''),
                                                  (''slack_message'', slack_message)])\<rparr>,
               [Log INFO (''Received event: '' @ json_dumps rt event),
                Call ''extract_resource_details'' [ev_detail env, ev_event_name env],
                Log INFO (''Sending Slack alert: '' @ str_of rt slack_message),
                Call ''send_slack_notification'' [slack_message],
                HttpPost (SLACK_WEBHOOK_URL rt) (json_dumps rt slack_message),
                Log INFO (''Slack Notification Sent! Response Code: '' @ str_of rt (PInt status))])"
      by (simp add: handler_after_try)
  }
  {
    fix e
    assume a: "SLACK_WEBHOOK_URL rt \<noteq> []
              \<and> Request rt (SLACK_WEBHOOK_URL rt) (json_dumps rt slack_message) = Inl e"
    then show "send_slack_notification rt slack_message = (Inl e, [])"
      by (simp add: send_request_refused)
    from a show "lambda_handler rt event =
              (Inr \<lparr>statusCode = 500, body = ''Error processing event: '' @ exn_message e\<rparr>,
               [Log INFO (''Received event: '' @ json_dumps rt event),
                Call ''extract_resource_details'' [ev_detail env, ev_event_name env],
                Log INFO (''Sending Slack alert: '' @ str_of rt slack_message),
                Call ''send_slack_notification'' [slack_message],
                Log ERROR (''Error processing event: '' @ exn_message e)])"
      by (simp add: handler_when_request_refused [OF assms])
  }
qed

theorem delivery_outcome_and_status_witness:
  "fst (lambda_handler unconfigured_runtime scenario_A)
     = Inr \<lparr>statusCode = 200, body = ''<json>''\<rparr>
   \<and> (\<forall>url data. HttpPost url data \<notin> set (snd (lambda_handler unconfigured_runtime scenario_A)))
   \<and> fst (lambda_handler unreachable_runtime scenario_A)
     = Inr \<lparr>statusCode = 200, body = ''<json>''\<rparr>
   \<and> HttpPost ''https://hooks.slack.example/services/T000'' ''<json>''
       \<in> set (snd (lambda_handler unreachable_runtime scenario_A))
   \<and> Log ERROR ''Error sending Slack notification: timed out''
       \<in> set (snd (lambda_handler unreachable_runtime scenario_A))
   \<and> fst (lambda_handler example_runtime scenario_A)
     = Inr \<lparr>statusCode = 200, body = ''<json>''\<rparr>
   \<and> statusCode (projr (fst (lambda_handler schemeless_runtime scenario_A))) = 500"
proof -
  note env = envelope_of_scenario_A
  have who: "resolve_user_name
               (ev_user_identity
                 \<lparr>ev_detail = launch_detail ''alice@xyz.com'', ev_event_name = PStr ''RunInstances'',
                  ev_user_identity = PDict [(''userName'', PStr ''alice@xyz.com'')],
                  ev_aws_region = PStr ''eu-west-1'', ev_event_time = PStr ''2024-01-01T00:00:00Z'',
                  ev_event_source = PStr ''ec2.amazonaws.com''\<rparr>)
             = Inr (PStr ''alice@xyz.com'')"
    by (simp add: alice_resolved)
  have res: "extract_resource_details
               (ev_detail
                 \<lparr>ev_detail = launch_detail ''alice@xyz.com'', ev_event_name = PStr ''RunInstances'',
                  ev_user_identity = PDict [(''userName'', PStr ''alice@xyz.com'')],
                  ev_aws_region = PStr ''eu-west-1'', ev_event_time = PStr ''2024-01-01T00:00:00Z'',
                  ev_event_source = PStr ''ec2.amazonaws.com''\<rparr>)
               (ev_event_name
                 \<lparr>ev_detail = launch_detail ''alice@xyz.com'', ev_event_name = PStr ''RunInstances'',
                  ev_user_identity = PDict [(''userName'', PStr ''alice@xyz.com'')],
                  ev_aws_region = PStr ''eu-west-1'', ev_event_time = PStr ''2024-01-01T00:00:00Z'',
                  ev_event_source = PStr ''ec2.amazonaws.com''\<rparr>)
             = Inr (''Instance_ID'', PStr ''i-0abc'')"
    by (simp add: launch_extracted)
  have off: "SLACK_WEBHOOK_URL unconfigured_runtime = []"
    and off_json: "\<And>v. json_dumps unconfigured_runtime v = ''<json>''"
    by (simp_all add: unconfigured_runtime_def example_runtime_def)
  have on: "SLACK_WEBHOOK_URL unreachable_runtime = ''https://hooks.slack.example/services/T000''"
    and on_json: "\<And>v. json_dumps unreachable_runtime v = ''<json>''"
    and accepted: "\<And>url data. Request unreachable_runtime url data = Inr ()"
    and timed_out: "\<And>url data. urlopen unreachable_runtime url data = Inl (OSError ''timed out'')"
    by (simp_all add: unreachable_runtime_def example_runtime_def)
  from delivery_outcome_and_status [OF env who alice_listed res refl, of unconfigured_runtime] off
  have 1: "fst (lambda_handler unconfigured_runtime scenario_A)
             = Inr \<lparr>statusCode = 200, body = ''<json>''\<rparr>"
    and 2: "\<forall>url data. HttpPost url data \<notin> set (snd (lambda_handler unconfigured_runtime scenario_A))"
    by (simp_all add: off_json)
  from delivery_outcome_and_status [OF env who alice_listed res refl, of unreachable_runtime]
  have "lambda_handler unreachable_runtime scenario_A =
          (Inr \<lparr>statusCode = 200, body = ''<json>''\<rparr>,
           [Log INFO ''Received event: <json>'',
            Call ''extract_resource_details'' [launch_detail ''alice@xyz.com'', PStr ''RunInstances''],
            Log INFO (''Sending Slack alert: '' @ str_of unreachable_runtime
              (PDict [(''text'', PStr (slack_text unreachable_runtime (PStr ''alice@xyz.com'')
                 (PStr ''ec2.amazonaws.com'') (PStr ''RunInstances'') ''Instance_ID''
                 (PStr ''i-0abc'') (PStr ''eu-west-1'') (PStr ''2024-01-01T00:00:00Z'')))])),
            Call ''send_slack_notification''
              [PDict [(''text'', PStr (slack_text unreachable_runtime (PStr ''alice@xyz.com'')
                 (PStr ''ec2.amazonaws.com'') (PStr ''RunInstances'') ''Instance_ID''
                 (PStr ''i-0abc'') (PStr ''eu-west-1'') (PStr ''2024-01-01T00:00:00Z'')))]],
            HttpPost ''https://hooks.slack.example/services/T000'' ''<json>'',
            Log ERROR ''Error sending Slack notification: timed out''])"
    by (simp add: on on_json accepted timed_out)
  then have 3: "fst (lambda_handler unreachable_runtime scenario_A)
             = Inr \<lparr>statusCode = 200, body = ''<json>''\<rparr>"
    and 4: "HttpPost ''https://hooks.slack.example/services/T000'' ''<json>''
             \<in> set (snd (lambda_handler unreachable_runtime scenario_A))"
    and 5: "Log ERROR ''Error sending Slack notification: timed out''
             \<in> set (snd (lambda_handler unreachable_runtime scenario_A))"
    by simp_all
  have live: "SLACK_WEBHOOK_URL example_runtime = ''https://hooks.slack.example/services/T000''"
    and live_json: "\<And>v. json_dumps example_runtime v = ''<json>''"
    and live_accepted: "\<And>url data. Request example_runtime url data = Inr ()"
    and answered: "\<And>url data. urlopen example_runtime url data = Inr 200"
    by (simp_all add: example_runtime_def)
  from delivery_outcome_and_status [OF env who alice_listed res refl, of example_runtime]
  have 6: "fst (lambda_handler example_runtime scenario_A)
             = Inr \<lparr>statusCode = 200, body = ''<json>''\<rparr>"
    by (simp add: live live_json live_accepted answered)
  from delivery_outcome_and_status [OF env who alice_listed res refl, of schemeless_runtime]
  have 7: "statusCode (projr (fst (lambda_handler schemeless_runtime scenario_A))) = 500"
    by (simp add: schemeless_fields)
  from 1 2 3 4 5 6 7 show ?thesis by blast
qed

lemma send_returns:
  assumes "SLACK_WEBHOOK_URL rt = []
           \<or> Request rt (SLACK_WEBHOOK_URL rt) (json_dumps rt message) = Inr ()"
  shows "fst (send_slack_notification rt message) = Inr ()"
proof (cases "SLACK_WEBHOOK_URL rt = []")
  case True
  then show ?thesis by (simp add: send_unconfigured)
next
  case False
  with assms have req: "Request rt (SLACK_WEBHOOK_URL rt) (json_dumps rt message) = Inr ()"
    by simp
  show ?thesis
    by (cases "urlopen rt (SLACK_WEBHOOK_URL rt) (json_dumps rt message)")
       (simp_all add: send_call_failed [OF False req] send_call_answered [OF False req])
qed

lemma send_posts:
  assumes "SLACK_WEBHOOK_URL rt \<noteq> []"
    and "Request rt (SLACK_WEBHOOK_URL rt) (json_dumps rt message) = Inr ()"
  shows "HttpPost (SLACK_WEBHOOK_URL rt) (json_dumps rt message)
           \<in> set (snd (send_slack_notification rt message))"
  by (cases "urlopen rt (SLACK_WEBHOOK_URL rt) (json_dumps rt message)")
     (simp_all add: send_call_failed [OF assms] send_call_answered [OF assms])

lemma slack_text_lines:
  "slack_text rt user_name event_source event_name k v aws_region event_time =
     concat ([header_line,
              message_line bust ''User'' (py_format rt user_name),
              message_line tools ''Event Source'' (py_format rt event_source),
              message_line tools ''Event'' (py_format rt event_name)]
             @ (if k \<noteq> [] \<and> truthy v then [message_line tools k (py_format rt v)] else [])
             @ [message_line globe ''Region'' (py_format rt aws_region),
                message_line clock ''Time'' (py_format rt event_time)])"
  by (simp add: slack_text_def message_line_def header_line_def bust_def tools_def globe_def clock_def)

lemma handler_calls_send:
  assumes "parse_envelope event = Inr env"
    and "resolve_user_name (ev_user_identity env) = Inr user_name"
    and "py_in ''@xyz.com'' user_name = Inr True"
    and "extract_resource_details (ev_detail env) (ev_event_name env) = Inr (k, v)"
    and "slack_message = PDict [(''text'', PStr (slack_text rt user_name (ev_event_source env)
                                   (ev_event_name env) k v (ev_aws_region env) (ev_event_time env)))]"
  shows "Call ''send_slack_notification'' [slack_message] \<in> set (snd (lambda_handler rt event))"
    and "set (snd (send_slack_notification rt slack_message)) \<subseteq> set (snd (lambda_handler rt event))"
    and "fst (send_slack_notification rt slack_message) = Inr () \<Longrightarrow>
         fst (lambda_handler rt event) =
           Inr \<lparr>statusCode = 200,
                 body = json_dumps rt (PDict [(''message'', PStr ''Notification sent''),
                                              (''slack_message'', slack_message)])\<rparr>"
  using try_block_listed [OF assms]
  by (cases "fst (send_slack_notification rt slack_message)";
      simp add: handler_after_try split: prod.splits; fastforce)+

lemma truthy_cases:
  "truthy v = (case v of PNone \<Rightarrow> False | PBool b \<Rightarrow> b | PInt i \<Rightarrow> i \<noteq> 0
                              | PFloat f \<Rightarrow> f AND 0x7FFFFFFFFFFFFFFF \<noteq> 0 | PStr s \<Rightarrow> s \<noteq> []
                              | PList xs \<Rightarrow> xs \<noteq> [] | PDict m \<Rightarrow> m \<noteq> [])"
  by (cases v) simp_all

lemma envelope_of_numeric_id_event:
  "parse_envelope numeric_id_event =
     Inr \<lparr>ev_detail = PDict [(''eventName'', PStr ''CreateRestApi''),
                               (''userIdentity'', PDict [(''userName'', PStr ''alice@xyz.com'')]),
                               (''responseElements'', PDict [(''id'', PInt 5)])],
          ev_event_name = PStr ''CreateRestApi'',
          ev_user_identity = PDict [(''userName'', PStr ''alice@xyz.com'')],
          ev_aws_region = PStr ''Unknown'', ev_event_time = PStr ''Unknown'',
          ev_event_source = PStr ''Unknown''\<rparr>"
  by (simp add: parse_envelope_def numeric_id_event_def)

lemma envelope_of_bare_label_event:
  "parse_envelope bare_label_event =
     Inr \<lparr>ev_detail = PDict [(''eventName'', PStr ''CreateDBInstance''),
                               (''userIdentity'', PDict [(''userName'', PStr ''alice@xyz.com'')]),
                               (''responseElements'', PDict [])],
          ev_event_name = PStr ''CreateDBInstance'',
          ev_user_identity = PDict [(''userName'', PStr ''alice@xyz.com'')],
          ev_aws_region = PStr ''Unknown'', ev_event_time = PStr ''Unknown'',
          ev_event_source = PStr ''Unknown''\<rparr>"
  by (simp add: parse_envelope_def bare_label_event_def)

lemma example_fields:
  "SLACK_WEBHOOK_URL example_runtime = ''https://hooks.slack.example/services/T000''"
  "json_dumps example_runtime v = ''<json>''"
  "str_of example_runtime v = ''<str>''"
  "Request example_runtime url data = Inr ()"
  "urlopen example_runtime url data = Inr 200"
  by (simp_all add: example_runtime_def)

text \<open>
  C9 as stated fails twice. The resource line is also printed for a value that is not
  a string: the number 5 as the \<open>id\<close> of a REST API gets its line (\<open><str>\<close> stands for
  what \<open>str\<close> prints). And the status for an event name without a rule is not always
  200: with the endpoint that \<open>Request\<close> refuses it is 500.
\<close>

theorem resource_line_for_a_number:
  "extract_resource_details
     (PDict [(''eventName'', PStr ''CreateRestApi''),
             (''userIdentity'', PDict [(''userName'', PStr ''alice@xyz.com'')]),
             (''responseElements'', PDict [(''id'', PInt 5)])])
     (PStr ''CreateRestApi'') = Inr (''RestApi'', PInt 5)
   \<and> Call ''send_slack_notification''
         [PDict [(''text'', PStr (concat
            [header_line,
             message_line bust ''User'' ''alice@xyz.com'',
             message_line tools ''Event Source'' ''Unknown'',
             message_line tools ''Event'' ''CreateRestApi'',
             message_line tools ''RestApi'' ''<str>'',
             message_line globe ''Region'' ''Unknown'',
             message_line clock ''Time'' ''Unknown'']))]]
       \<in> set (snd (lambda_handler example_runtime numeric_id_event))
   \<and> fst (lambda_handler schemeless_runtime scenario_C) =
       Inr \<lparr>statusCode = 500,
             body = ''Error processing event: unknown url type: ''
                    @ [CHR 0x27] @ ''hooks.slack.example/services/T000'' @ [CHR 0x27]\<rparr>"
proof -
  have res: "extract_resource_details
     (PDict [(''eventName'', PStr ''CreateRestApi''),
             (''userIdentity'', PDict [(''userName'', PStr ''alice@xyz.com'')]),
             (''responseElements'', PDict [(''id'', PInt 5)])])
     (PStr ''CreateRestApi'') = Inr (''RestApi'', PInt 5)"
    by (simp add: extract_resource_details_def)
  have "Call ''send_slack_notification''
          [PDict [(''text'', PStr (slack_text example_runtime (PStr ''alice@xyz.com'') (PStr ''Unknown'')
                     (PStr ''CreateRestApi'') ''RestApi'' (PInt 5) (PStr ''Unknown'') (PStr ''Unknown'')))]]
        \<in> set (snd (lambda_handler example_runtime numeric_id_event))"
    using handler_calls_send(1) [OF envelope_of_numeric_id_event _ alice_listed _ refl,
                                  of "''RestApi''" "PInt 5" example_runtime]
    by (simp add: alice_resolved res)
  then have line: "Call ''send_slack_notification''
         [PDict [(''text'', PStr (concat
            [header_line,
             message_line bust ''User'' ''alice@xyz.com'',
             message_line tools ''Event Source'' ''Unknown'',
             message_line tools ''Event'' ''CreateRestApi'',
             message_line tools ''RestApi'' ''<str>'',
             message_line globe ''Region'' ''Unknown'',
             message_line clock ''Time'' ''Unknown'']))]]
       \<in> set (snd (lambda_handler example_runtime numeric_id_event))"
    by (simp add: slack_text_lines py_format_def example_fields)
  have "fst (lambda_handler schemeless_runtime scenario_C) =
          Inr \<lparr>statusCode = 500,
                body = ''Error processing event: '' @ exn_message
                  (ValueError (''unknown url type: '' @ [CHR 0x27]
                     @ ''hooks.slack.example/services/T000'' @ [CHR 0x27]))\<rparr>"
    by (rule handler_refused_status [OF envelope_of_scenario_C _ alice_listed _ refl,
                                     of "[]" "PStr []"])
       (simp_all add: alice_resolved extract_resource_details_def schemeless_fields)
  with res line show ?thesis by simp
qed

text \<open>
  C9, amended. For an event that passes the filter and whose resource is extracted as
  \<open>(k, v)\<close>, the text handed to \<open>send_slack_notification\<close>, and posted when an endpoint is
  configured that \<open>Request\<close> accepts, is the header line and the lines of the actor, the
  event source, the event name, the region and the event time, in this order, with the
  resource line \<open>k: v\<close> after the event name exactly when \<open>k\<close> is not empty and \<open>v\<close> is
  truthy: a non-empty string, and also a value that is not a string, such as a number
  other than zero. For an event name without a rule the text has no resource line, and
  the status is 200, unless \<open>Request\<close> refuses the configured URL: then it is 500.
\<close>

theorem rendered_message_lines:
  assumes "parse_envelope event = Inr env"
    and "resolve_user_name (ev_user_identity env) = Inr user_name"
    and "py_in ''@xyz.com'' user_name = Inr True"
    and "extract_resource_details (ev_detail env) (ev_event_name env) = Inr (k, v)"
    and "slack_message = PDict [(''text'', PStr (slack_text rt user_name (ev_event_source env)
                                   (ev_event_name env) k v (ev_aws_region env) (ev_event_time env)))]"
  shows "slack_message =
           PDict [(''text'', PStr (concat
             ([header_line,
               message_line bust ''User'' (py_format rt user_name),
               message_line tools ''Event Source'' (py_format rt (ev_event_source env)),
               message_line tools ''Event'' (py_format rt (ev_event_name env))]
              @ (if k \<noteq> [] \<and> (case v of PNone \<Rightarrow> False | PBool b \<Rightarrow> b | PInt i \<Rightarrow> i \<noteq> 0
                              | PFloat f \<Rightarrow> f AND 0x7FFFFFFFFFFFFFFF \<noteq> 0 | PStr s \<Rightarrow> s \<noteq> []
                              | PList xs \<Rightarrow> xs \<noteq> [] | PDict m \<Rightarrow> m \<noteq> [])
                 then [message_line tools k (py_format rt v)] else [])
              @ [message_line globe ''Region'' (py_format rt (ev_aws_region env)),
                 message_line clock ''Time'' (py_format rt (ev_event_time env))])))]
       \<and> Call ''send_slack_notification'' [slack_message] \<in> set (snd (lambda_handler rt event))
       \<and> (SLACK_WEBHOOK_URL rt \<noteq> []
            \<and> Request rt (SLACK_WEBHOOK_URL rt) (json_dumps rt slack_message) = Inr () \<longrightarrow>
          HttpPost (SLACK_WEBHOOK_URL rt) (json_dumps rt slack_message)
            \<in> set (snd (lambda_handler rt event)))
       \<and> (\<forall>n. ev_event_name env = PStr n \<and> n \<notin> set registered_event_names \<longrightarrow>
            slack_message =
              PDict [(''text'', PStr (concat
                [header_line,
                 message_line bust ''User'' (py_format rt user_name),
                 message_line tools ''Event Source'' (py_format rt (ev_event_source env)),
                 message_line tools ''Event'' (py_format rt (ev_event_name env)),
                 message_line globe ''Region'' (py_format rt (ev_aws_region env)),
                 message_line clock ''Time'' (py_format rt (ev_event_time env))]))]
            \<and> (SLACK_WEBHOOK_URL rt = []
                 \<or> Request rt (SLACK_WEBHOOK_URL rt) (json_dumps rt slack_message) = Inr () \<longrightarrow>
               fst (lambda_handler rt event) =
                 Inr \<lparr>statusCode = 200,
                       body = json_dumps rt (PDict [(''message'', PStr ''Notification sent''),
                                                    (''slack_message'', slack_message)])\<rparr>)
            \<and> (\<forall>e. SLACK_WEBHOOK_URL rt \<noteq> []
                 \<and> Request rt (SLACK_WEBHOOK_URL rt) (json_dumps rt slack_message) = Inl e \<longrightarrow>
               fst (lambda_handler rt event) =
                 Inr \<lparr>statusCode = 500,
                       body = ''Error processing event: '' @ exn_message e\<rparr>))"
proof (intro conjI allI impI)
  show lines: "slack_message =
           PDict [(''text'', PStr (concat
             ([header_line,
               message_line bust ''User'' (py_format rt user_name),
               message_line tools ''Event Source'' (py_format rt (ev_event_source env)),
               message_line tools ''Event'' (py_format rt (ev_event_name env))]
              @ (if k \<noteq> [] \<and> (case v of PNone \<Rightarrow> False | PBool b \<Rightarrow> b | PInt i \<Rightarrow> i \<noteq> 0
                              | PFloat f \<Rightarrow> f AND 0x7FFFFFFFFFFFFFFF \<noteq> 0 | PStr s \<Rightarrow> s \<noteq> []
                              | PList xs \<Rightarrow> xs \<noteq> [] | PDict m \<Rightarrow> m \<noteq> [])
                 then [message_line tools k (py_format rt v)] else [])
              @ [message_line globe ''Region'' (py_format rt (ev_aws_region env)),
                 message_line clock ''Time'' (py_format rt (ev_event_time env))])))]"
    unfolding assms(5) slack_text_lines truthy_cases ..
  show "Call ''send_slack_notification'' [slack_message] \<in> set (snd (lambda_handler rt event))"
    by (rule handler_calls_send(1) [OF assms])
  {
    assume "SLACK_WEBHOOK_URL rt \<noteq> []
            \<and> Request rt (SLACK_WEBHOOK_URL rt) (json_dumps rt slack_message) = Inr ()"
    then have "HttpPost (SLACK_WEBHOOK_URL rt) (json_dumps rt slack_message)
                 \<in> set (snd (send_slack_notification rt slack_message))"
      by (simp add: send_posts)
    with handler_calls_send(2) [OF assms]
    show "HttpPost (SLACK_WEBHOOK_URL rt) (json_dumps rt slack_message)
            \<in> set (snd (lambda_handler rt event))"
      by blast
  }
  fix n
  assume unregistered: "ev_event_name env = PStr n \<and> n \<notin> set registered_event_names"
  from parse_envelope_detail [OF assms(1)] obtain d where "ev_detail env = PDict d" by blast
  with unregistered assms(4) have "k = []"
    using unregistered_gives_default [of "PStr n" d] by auto
  with lines show "slack_message =
              PDict [(''text'', PStr (concat
                [header_line,
                 message_line bust ''User'' (py_format rt user_name),
                 message_line tools ''Event Source'' (py_format rt (ev_event_source env)),
                 message_line tools ''Event'' (py_format rt (ev_event_name env)),
                 message_line globe ''Region'' (py_format rt (ev_aws_region env)),
                 message_line clock ''Time'' (py_format rt (ev_event_time env))]))]"
    by simp
  {
    assume "SLACK_WEBHOOK_URL rt = []
            \<or> Request rt (SLACK_WEBHOOK_URL rt) (json_dumps rt slack_message) = Inr ()"
    then have "fst (send_slack_notification rt slack_message) = Inr ()"
      by (rule send_returns)
    then show "fst (lambda_handler rt event) =
                 Inr \<lparr>statusCode = 200,
                       body = json_dumps rt (PDict [(''message'', PStr ''Notification sent''),
                                                    (''slack_message'', slack_message)])\<rparr>"
      by (rule handler_calls_send(3) [OF assms])
  }
  fix e
  assume "SLACK_WEBHOOK_URL rt \<noteq> []
          \<and> Request rt (SLACK_WEBHOOK_URL rt) (json_dumps rt slack_message) = Inl e"
  then show "fst (lambda_handler rt event) =
               Inr \<lparr>statusCode = 500, body = ''Error processing event: '' @ exn_message e\<rparr>"
    by (simp add: handler_refused_status [OF assms])
qed

theorem rendered_message_lines_witness:
  "fst (lambda_handler example_runtime scenario_C) = Inr \<lparr>statusCode = 200, body = ''<json>''\<rparr>
   \<and> Call ''send_slack_notification''
         [PDict [(''text'', PStr (concat
            [header_line,
             message_line bust ''User'' ''alice@xyz.com'',
             message_line tools ''Event Source'' ''Unknown'',
             message_line tools ''Event'' ''UnknownThing'',
             message_line globe ''Region'' ''Unknown'',
             message_line clock ''Time'' ''Unknown'']))]]
       \<in> set (snd (lambda_handler example_runtime scenario_C))
   \<and> Call ''send_slack_notification''
         [PDict [(''text'', PStr (concat
            [header_line,
             message_line bust ''User'' ''alice@xyz.com'',
             message_line tools ''Event Source'' ''ec2.amazonaws.com'',
             message_line tools ''Event'' ''RunInstances'',
             message_line tools ''Instance_ID'' ''i-0abc'',
             message_line globe ''Region'' ''eu-west-1'',
             message_line clock ''Time'' ''2024-01-01T00:00:00Z'']))]]
       \<in> set (snd (lambda_handler example_runtime scenario_A))
   \<and> HttpPost ''https://hooks.slack.example/services/T000'' ''<json>''
       \<in> set (snd (lambda_handler example_runtime scenario_A))
   \<and> Call ''send_slack_notification''
         [PDict [(''text'', PStr (concat
            [header_line,
             message_line bust ''User'' ''alice@xyz.com'',
             message_line tools ''Event Source'' ''Unknown'',
             message_line tools ''Event'' ''CreateDBInstance'',
             message_line globe ''Region'' ''Unknown'',
             message_line clock ''Time'' ''Unknown'']))]]
       \<in> set (snd (lambda_handler example_runtime bare_label_event))
   \<and> Call ''send_slack_notification''
         [PDict [(''text'', PStr (concat
            [header_line,
             message_line bust ''User'' ''alice@xyz.com'',
             message_line tools ''Event Source'' ''Unknown'',
             message_line tools ''Event'' ''CreateRestApi'',
             message_line tools ''RestApi'' ''<str>'',
             message_line globe ''Region'' ''Unknown'',
             message_line clock ''Time'' ''Unknown'']))]]
       \<in> set (snd (lambda_handler example_runtime numeric_id_event))
   \<and> statusCode (projr (fst (lambda_handler schemeless_runtime scenario_C))) = 500"
proof -
  have who_A: "resolve_user_name
               (ev_user_identity
                 \<lparr>ev_detail = launch_detail ''alice@xyz.com'', ev_event_name = PStr ''RunInstances'',
                  ev_user_identity = PDict [(''userName'', PStr ''alice@xyz.com'')],
                  ev_aws_region = PStr ''eu-west-1'', ev_event_time = PStr ''2024-01-01T00:00:00Z'',
                  ev_event_source = PStr ''ec2.amazonaws.com''\<rparr>)
             = Inr (PStr ''alice@xyz.com'')"
    by (simp add: alice_resolved)
  have res_A: "extract_resource_details
               (ev_detail
                 \<lparr>ev_detail = launch_detail ''alice@xyz.com'', ev_event_name = PStr ''RunInstances'',
                  ev_user_identity = PDict [(''userName'', PStr ''alice@xyz.com'')],
                  ev_aws_region = PStr ''eu-west-1'', ev_event_time = PStr ''2024-01-01T00:00:00Z'',
                  ev_event_source = PStr ''ec2.amazonaws.com''\<rparr>)
               (ev_event_name
                 \<lparr>ev_detail = launch_detail ''alice@xyz.com'', ev_event_name = PStr ''RunInstances'',
                  ev_user_identity = PDict [(''userName'', PStr ''alice@xyz.com'')],
                  ev_aws_region = PStr ''eu-west-1'', ev_event_time = PStr ''2024-01-01T00:00:00Z'',
                  ev_event_source = PStr ''ec2.amazonaws.com''\<rparr>)
             = Inr (''Instance_ID'', PStr ''i-0abc'')"
    by (simp add: extract_resource_details_def launch_detail_def)
  have who_C: "resolve_user_name
               (ev_user_identity
                 \<lparr>ev_detail = PDict [(''eventName'', PStr ''UnknownThing''),
                                      (''userIdentity'', PDict [(''userName'', PStr ''alice@xyz.com'')])],
                  ev_event_name = PStr ''UnknownThing'',
                  ev_user_identity = PDict [(''userName'', PStr ''alice@xyz.com'')],
                  ev_aws_region = PStr ''Unknown'', ev_event_time = PStr ''Unknown'',
                  ev_event_source = PStr ''Unknown''\<rparr>)
             = Inr (PStr ''alice@xyz.com'')"
    by (simp add: alice_resolved)
  have res_C: "extract_resource_details
               (ev_detail
                 \<lparr>ev_detail = PDict [(''eventName'', PStr ''UnknownThing''),
                                      (''userIdentity'', PDict [(''userName'', PStr ''alice@xyz.com'')])],
                  ev_event_name = PStr ''UnknownThing'',
                  ev_user_identity = PDict [(''userName'', PStr ''alice@xyz.com'')],
                  ev_aws_region = PStr ''Unknown'', ev_event_time = PStr ''Unknown'',
                  ev_event_source = PStr ''Unknown''\<rparr>)
               (ev_event_name
                 \<lparr>ev_detail = PDict [(''eventName'', PStr ''UnknownThing''),
                                      (''userIdentity'', PDict [(''userName'', PStr ''alice@xyz.com'')])],
                  ev_event_name = PStr ''UnknownThing'',
                  ev_user_identity = PDict [(''userName'', PStr ''alice@xyz.com'')],
                  ev_aws_region = PStr ''Unknown'', ev_event_time = PStr ''Unknown'',
                  ev_event_source = PStr ''Unknown''\<rparr>)
             = Inr ([], PStr [])"
    by (simp add: extract_resource_details_def)
  have name_C: "''UnknownThing'' \<notin> set registered_event_names"
    by (simp add: registered_event_names_def)
  have rt: "SLACK_WEBHOOK_URL example_runtime = ''https://hooks.slack.example/services/T000''"
    "\<And>v. json_dumps example_runtime v = ''<json>''"
    "\<And>url data. Request example_runtime url data = Inr ()"
    "\<And>s. py_format example_runtime (PStr s) = s"
    by (simp_all add: example_runtime_def py_format_def)
  from rendered_message_lines [OF envelope_of_scenario_C who_C alice_listed res_C refl, of example_runtime]
       name_C
  have c: "fst (lambda_handler example_runtime scenario_C)
             = Inr \<lparr>statusCode = 200, body = ''<json>''\<rparr>"
    "Call ''send_slack_notification''
         [PDict [(''text'', PStr (concat
            [header_line,
             message_line bust ''User'' ''alice@xyz.com'',
             message_line tools ''Event Source'' ''Unknown'',
             message_line tools ''Event'' ''UnknownThing'',
             message_line globe ''Region'' ''Unknown'',
             message_line clock ''Time'' ''Unknown'']))]]
       \<in> set (snd (lambda_handler example_runtime scenario_C))"
    by (auto simp: rt)
  from rendered_message_lines [OF envelope_of_scenario_A who_A alice_listed res_A refl, of example_runtime]
  have a: "Call ''send_slack_notification''
         [PDict [(''text'', PStr (concat
            [header_line,
             message_line bust ''User'' ''alice@xyz.com'',
             message_line tools ''Event Source'' ''ec2.amazonaws.com'',
             message_line tools ''Event'' ''RunInstances'',
             message_line tools ''Instance_ID'' ''i-0abc'',
             message_line globe ''Region'' ''eu-west-1'',
             message_line clock ''Time'' ''2024-01-01T00:00:00Z'']))]]
       \<in> set (snd (lambda_handler example_runtime scenario_A))"
    "HttpPost ''https://hooks.slack.example/services/T000'' ''<json>''
       \<in> set (snd (lambda_handler example_runtime scenario_A))"
    by (auto simp: rt)
  have who_D: "resolve_user_name
               (ev_user_identity
                 \<lparr>ev_detail = PDict [(''eventName'', PStr ''CreateDBInstance''),
                                      (''userIdentity'', PDict [(''userName'', PStr ''alice@xyz.com'')]),
                                      (''responseElements'', PDict [])],
                  ev_event_name = PStr ''CreateDBInstance'',
                  ev_user_identity = PDict [(''userName'', PStr ''alice@xyz.com'')],
                  ev_aws_region = PStr ''Unknown'', ev_event_time = PStr ''Unknown'',
                  ev_event_source = PStr ''Unknown''\<rparr>)
             = Inr (PStr ''alice@xyz.com'')"
    by (simp add: alice_resolved)
  have res_D: "extract_resource_details
               (ev_detail
                 \<lparr>ev_detail = PDict [(''eventName'', PStr ''CreateDBInstance''),
                                      (''userIdentity'', PDict [(''userName'', PStr ''alice@xyz.com'')]),
                                      (''responseElements'', PDict [])],
                  ev_event_name = PStr ''CreateDBInstance'',
                  ev_user_identity = PDict [(''userName'', PStr ''alice@xyz.com'')],
                  ev_aws_region = PStr ''Unknown'', ev_event_time = PStr ''Unknown'',
                  ev_event_source = PStr ''Unknown''\<rparr>)
               (ev_event_name
                 \<lparr>ev_detail = PDict [(''eventName'', PStr ''CreateDBInstance''),
                                      (''userIdentity'', PDict [(''userName'', PStr ''alice@xyz.com'')]),
                                      (''responseElements'', PDict [])],
                  ev_event_name = PStr ''CreateDBInstance'',
                  ev_user_identity = PDict [(''userName'', PStr ''alice@xyz.com'')],
                  ev_aws_region = PStr ''Unknown'', ev_event_time = PStr ''Unknown'',
                  ev_event_source = PStr ''Unknown''\<rparr>)
             = Inr (''DB_Instance_ID'', PStr [])"
    by (simp add: extract_resource_details_def)
  have who_N: "resolve_user_name
               (ev_user_identity
                 \<lparr>ev_detail = PDict [(''eventName'', PStr ''CreateRestApi''),
                                      (''userIdentity'', PDict [(''userName'', PStr ''alice@xyz.com'')]),
                                      (''responseElements'', PDict [(''id'', PInt 5)])],
                  ev_event_name = PStr ''CreateRestApi'',
                  ev_user_identity = PDict [(''userName'', PStr ''alice@xyz.com'')],
                  ev_aws_region = PStr ''Unknown'', ev_event_time = PStr ''Unknown'',
                  ev_event_source = PStr ''Unknown''\<rparr>)
             = Inr (PStr ''alice@xyz.com'')"
    by (simp add: alice_resolved)
  have res_N: "extract_resource_details
               (ev_detail
                 \<lparr>ev_detail = PDict [(''eventName'', PStr ''CreateRestApi''),
                                      (''userIdentity'', PDict [(''userName'', PStr ''alice@xyz.com'')]),
                                      (''responseElements'', PDict [(''id'', PInt 5)])],
                  ev_event_name = PStr ''CreateRestApi'',
                  ev_user_identity = PDict [(''userName'', PStr ''alice@xyz.com'')],
                  ev_aws_region = PStr ''Unknown'', ev_event_time = PStr ''Unknown'',
                  ev_event_source = PStr ''Unknown''\<rparr>)
               (ev_event_name
                 \<lparr>ev_detail = PDict [(''eventName'', PStr ''CreateRestApi''),
                                      (''userIdentity'', PDict [(''userName'', PStr ''alice@xyz.com'')]),
                                      (''responseElements'', PDict [(''id'', PInt 5)])],
                  ev_event_name = PStr ''CreateRestApi'',
                  ev_user_identity = PDict [(''userName'', PStr ''alice@xyz.com'')],
                  ev_aws_region = PStr ''Unknown'', ev_event_time = PStr ''Unknown'',
                  ev_event_source = PStr ''Unknown''\<rparr>)
             = Inr (''RestApi'', PInt 5)"
    by (simp add: extract_resource_details_def)
  from rendered_message_lines [OF envelope_of_bare_label_event who_D alice_listed res_D refl,
                               of example_runtime]
  have d: "Call ''send_slack_notification''
         [PDict [(''text'', PStr (concat
            [header_line,
             message_line bust ''User'' ''alice@xyz.com'',
             message_line tools ''Event Source'' ''Unknown'',
             message_line tools ''Event'' ''CreateDBInstance'',
             message_line globe ''Region'' ''Unknown'',
             message_line clock ''Time'' ''Unknown'']))]]
       \<in> set (snd (lambda_handler example_runtime bare_label_event))"
    by (auto simp: rt)
  from rendered_message_lines [OF envelope_of_numeric_id_event who_N alice_listed res_N refl,
                               of example_runtime]
  have n: "Call ''send_slack_notification''
         [PDict [(''text'', PStr (concat
            [header_line,
             message_line bust ''User'' ''alice@xyz.com'',
             message_line tools ''Event Source'' ''Unknown'',
             message_line tools ''Event'' ''CreateRestApi'',
             message_line tools ''RestApi'' ''<str>'',
             message_line globe ''Region'' ''Unknown'',
             message_line clock ''Time'' ''Unknown'']))]]
       \<in> set (snd (lambda_handler example_runtime numeric_id_event))"
    by (auto simp: rt py_format_def example_fields(3))
  from rendered_message_lines [OF envelope_of_scenario_C who_C alice_listed res_C refl, of schemeless_runtime]
       name_C
  have s: "statusCode (projr (fst (lambda_handler schemeless_runtime scenario_C))) = 500"
    by (simp add: schemeless_fields)
  from c a d n s show ?thesis by blast
qed

text \<open>
  Where the exceptions of the \<open>try\<close> statement come from, one event for each step: an
  envelope that is not a mapping, a \<open>userName\<close> that is a number, a \<open>responseElements\<close>
  that is \<open>null\<close> for a listed user, and an endpoint that \<open>Request\<close> refuses, with the
  whole trace of the run.
\<close>

lemma envelope_failure_is_caught:
  "fst (lambda_handler example_runtime (PList [])) =
     Inr \<lparr>statusCode = 500,
           body = ''Error processing event: '' @ exn_message (no_attribute (PList []) ''get'')\<rparr>"
  by (simp add: handler_after_try try_block_def parse_envelope_def run_defs)

lemma filter_failure_is_caught:
  "fst (lambda_handler example_runtime
          (PDict [(''detail'', PDict [(''userIdentity'', PDict [(''userName'', PInt 7)])])])) =
     Inr \<lparr>statusCode = 500,
           body = ''Error processing event: argument of type ''
                  @ [CHR 0x27] @ ''int'' @ [CHR 0x27] @ '' is not iterable''\<rparr>"
  by (simp add: handler_after_try try_block_def parse_envelope_def resolve_user_name_def run_defs)

lemma extraction_failure_is_caught:
  "fst (lambda_handler example_runtime
          (PDict [(''detail'',
             PDict [(''eventName'', PStr ''DeleteUser''),
                    (''userIdentity'', PDict [(''userName'', PStr ''alice@xyz.com'')]),
                    (''responseElements'', PNone)])])) =
     Inr \<lparr>statusCode = 500,
           body = ''Error processing event: '' @ exn_message (no_attribute PNone ''get'')\<rparr>"
  by (simp add: handler_after_try try_block_def parse_envelope_def resolve_user_name_def
                extract_resource_details_def run_defs)

lemma refused_endpoint_is_caught:
  "lambda_handler schemeless_runtime scenario_C =
     (Inr \<lparr>statusCode = 500,
            body = ''Error processing event: unknown url type: ''
                   @ [CHR 0x27] @ ''hooks.slack.example/services/T000'' @ [CHR 0x27]\<rparr>,
      [Log INFO ''Received event: <json>'',
       Call ''extract_resource_details''
         [PDict [(''eventName'', PStr ''UnknownThing''),
                 (''userIdentity'', PDict [(''userName'', PStr ''alice@xyz.com'')])],
          PStr ''UnknownThing''],
       Log INFO ''Sending Slack alert: <str>'',
       Call ''send_slack_notification''
         [PDict [(''text'', PStr (slack_text schemeless_runtime (PStr ''alice@xyz.com'')
                    (PStr ''Unknown'') (PStr ''UnknownThing'') [] (PStr [])
                    (PStr ''Unknown'') (PStr ''Unknown'')))]],
       Log ERROR (''Error processing event: unknown url type: ''
                  @ [CHR 0x27] @ ''hooks.slack.example/services/T000'' @ [CHR 0x27])])"
proof -
  have rt: "SLACK_WEBHOOK_URL schemeless_runtime = ''hooks.slack.example/services/T000''"
    "\<And>v. json_dumps schemeless_runtime v = ''<json>''"
    "\<And>v. str_of schemeless_runtime v = ''<str>''"
    "\<And>url data. Request schemeless_runtime url data
        = Inl (ValueError (''unknown url type: '' @ [CHR 0x27] @ url @ [CHR 0x27]))"
    by (simp_all add: schemeless_runtime_def example_runtime_def)
  have who: "resolve_user_name
               (ev_user_identity
                 \<lparr>ev_detail = PDict [(''eventName'', PStr ''UnknownThing''),
                                      (''userIdentity'', PDict [(''userName'', PStr ''alice@xyz.com'')])],
                  ev_event_name = PStr ''UnknownThing'',
                  ev_user_identity = PDict [(''userName'', PStr ''alice@xyz.com'')],
                  ev_aws_region = PStr ''Unknown'', ev_event_time = PStr ''Unknown'',
                  ev_event_source = PStr ''Unknown''\<rparr>)
             = Inr (PStr ''alice@xyz.com'')"
    by (simp add: alice_resolved)
  have res: "extract_resource_details
               (ev_detail
                 \<lparr>ev_detail = PDict [(''eventName'', PStr ''UnknownThing''),
                                      (''userIdentity'', PDict [(''userName'', PStr ''alice@xyz.com'')])],
                  ev_event_name = PStr ''UnknownThing'',
                  ev_user_identity = PDict [(''userName'', PStr ''alice@xyz.com'')],
                  ev_aws_region = PStr ''Unknown'', ev_event_time = PStr ''Unknown'',
                  ev_event_source = PStr ''Unknown''\<rparr>)
               (ev_event_name
                 \<lparr>ev_detail = PDict [(''eventName'', PStr ''UnknownThing''),
                                      (''userIdentity'', PDict [(''userName'', PStr ''alice@xyz.com'')])],
                  ev_event_name = PStr ''UnknownThing'',
                  ev_user_identity = PDict [(''userName'', PStr ''alice@xyz.com'')],
                  ev_aws_region = PStr ''Unknown'', ev_event_time = PStr ''Unknown'',
                  ev_event_source = PStr ''Unknown''\<rparr>)
             = Inr ([], PStr [])"
    by (simp add: extract_resource_details_def)
  have refused: "send_slack_notification schemeless_runtime
                   (PDict [(''text'', PStr (slack_text schemeless_runtime (PStr ''alice@xyz.com'')
                      (PStr ''Unknown'') (PStr ''UnknownThing'') [] (PStr [])
                      (PStr ''Unknown'') (PStr ''Unknown'')))])
                 = (Inl (ValueError (''unknown url type: '' @ [CHR 0x27]
                           @ ''hooks.slack.example/services/T000'' @ [CHR 0x27])), [])"
    by (rule send_request_refused) (simp_all add: rt)
  from try_block_listed [OF envelope_of_scenario_C who alice_listed res refl, of schemeless_runtime]
       refused
  show ?thesis
    by (simp add: handler_after_try rt(2,3))
qed

end
